theory Spec2Isabelle
  imports Main "HOL-Library.List_Lexorder" "HOL-Library.Char_ord"
begin

section \<open>Go values and library functions used by the client\<close>

text \<open>
  A Go \<^verbatim>\<open>string\<close> is a byte sequence and is modelled as \<^typ>\<open>string\<close>.  A pointer
  field (\<^verbatim>\<open>*string\<close>, \<^verbatim>\<open>*bool\<close>, \<^verbatim>\<open>*int\<close>) is an \<^typ>\<open>'a option\<close>, \<^verbatim>\<open>nil\<close> being
  \<^term>\<open>None\<close>.

  A \<^verbatim>\<open>float64\<close> is kept as what \<^verbatim>\<open>strconv\<close> converts it to before it lays out the text:
  not a number, an infinity with its sign, or a sign, the digits of the shortest decimal
  that reads back as the same \<^verbatim>\<open>float64\<close>, and the position of the decimal point
  (the value is \<^verbatim>\<open>0.d1d2...dn * 10^dp\<close>; zero has no digits).  The binary representation
  and the arithmetic of a \<^verbatim>\<open>float64\<close> are not part of the model.
\<close>

datatype float64 =
    NaN
  | Inf bool
  | Finite bool string int

text \<open>
  A value of type \<^verbatim>\<open>interface{}\<close> is an \<open>any\<close>: the untyped \<^verbatim>\<open>nil\<close>, a bool, a Go
  integer, a \<^verbatim>\<open>float64\<close> (every number that \<^verbatim>\<open>json.Unmarshal\<close> decodes into an
  \<^verbatim>\<open>interface{}\<close> is one), a string, a pointer to a string or to a number, given by its
  address (0 for a \<^verbatim>\<open>nil\<close> pointer), a slice, or a string-keyed map (an association list).
\<close>

datatype any =
    VNil
  | VBool bool
  | VInt int
  | VFloat float64
  | VStr string
  | VPointer nat
  | VList "any list"
  | VMap "(string \<times> any) list"

type_synonym APIVersion = string
type_synonym OutputFormat = string

definition APIVersionV1 :: APIVersion where
  "APIVersionV1 = ''v1''"

definition APIVersionV2 :: APIVersion where
  "APIVersionV2 = ''v2''"

subsection \<open>strconv and fmt\<close>

definition digits :: string where
  "digits = ''0123456789''"

function FormatUint :: "nat \<Rightarrow> string" where
  "FormatUint n =
     (if n < 10 then [digits ! n]
      else FormatUint (n div 10) @ [digits ! (n mod 10)])"
  by pat_completeness auto
termination
  by (relation "measure (\<lambda>n. n)") auto

declare FormatUint.simps [simp del]

text \<open>The verb \<^verbatim>\<open>%d\<close> of \<^verbatim>\<open>fmt.Sprintf\<close> on an \<^verbatim>\<open>int\<close>.\<close>

definition Itoa :: "int \<Rightarrow> string" where
  "Itoa i = (if i < 0 then CHR ''-'' # FormatUint (nat (- i)) else FormatUint (nat i))"

text \<open>An address in hexadecimal, with the digits \<^verbatim>\<open>0123456789abcdef\<close>.\<close>

definition ldigits :: string where
  "ldigits = ''0123456789abcdef''"

function FormatHex :: "nat \<Rightarrow> string" where
  "FormatHex n =
     (if n < 16 then [ldigits ! n]
      else FormatHex (n div 16) @ [ldigits ! (n mod 16)])"
  by pat_completeness auto
termination
  by (relation "measure (\<lambda>n. n)") auto

declare FormatHex.simps [simp del]

text \<open>
  \<^verbatim>\<open>strconv.FormatFloat(f, 'g', -1, 64)\<close>, which is what the verb \<^verbatim>\<open>%v\<close> prints for a
  \<^verbatim>\<open>float64\<close>: \<^verbatim>\<open>fmtE\<close> lays out the digits with an exponent of at least two digits,
  \<^verbatim>\<open>fmtF\<close> without an exponent, both with all the digits of the shortest decimal; the
  exponent form is taken when the decimal exponent is below -4 or at least 6.
\<close>

definition fmtE :: "bool \<Rightarrow> string \<Rightarrow> int \<Rightarrow> string" where
  "fmtE neg d dp =
     (let exp = (if d = [] then 0 else dp - 1);
          e = nat \<bar>exp\<bar>
      in (if neg then ''-'' else '''')
         @ [if d = [] then CHR ''0'' else hd d]
         @ (if length d > 1 then ''.'' @ tl d else '''')
         @ ''e'' @ (if exp < 0 then ''-'' else ''+'')
         @ (if e < 10 then ''0'' @ FormatUint e else FormatUint e))"

definition fmtF :: "bool \<Rightarrow> string \<Rightarrow> int \<Rightarrow> string" where
  "fmtF neg d dp =
     (if neg then ''-'' else '''')
     @ (if dp > 0 then take (nat dp) d @ replicate (nat dp - length d) (CHR ''0'') else ''0'')
     @ (if int (length d) > dp
        then ''.'' @ (if dp < 0 then replicate (nat (- dp)) (CHR ''0'') @ d else drop (nat dp) d)
        else '''')"

fun FormatFloat_g :: "float64 \<Rightarrow> string" where
  "FormatFloat_g NaN = ''NaN''"
| "FormatFloat_g (Inf neg) = (if neg then ''-Inf'' else ''+Inf'')"
| "FormatFloat_g (Finite neg d dp) =
     (let exp = dp - 1
      in if exp < - 4 \<or> exp \<ge> 6 then fmtE neg d dp else fmtF neg d dp)"

text \<open>\<^verbatim>\<open>strings.Join\<close>.\<close>

fun Join :: "string list \<Rightarrow> string \<Rightarrow> string" where
  "Join [] sep = []"
| "Join [x] sep = x"
| "Join (x # y # ys) sep = x @ sep @ Join (y # ys) sep"

text \<open>
  The verb \<^verbatim>\<open>%v\<close> of \<^verbatim>\<open>fmt.Sprintf\<close> on the dynamic value of an \<^verbatim>\<open>interface{}\<close>:
  a string is printed as it is, a Go integer in decimal, a \<^verbatim>\<open>float64\<close> in the form
  \<^verbatim>\<open>%g\<close> (1234567 as \<^verbatim>\<open>1.234567e+06\<close>), a pointer to a string or to a number as its
  address (\<^verbatim>\<open>0x\<close> and hexadecimal digits), a slice as \<^verbatim>\<open>[a b]\<close> and a map as \<^verbatim>\<open>map[k:v]\<close>
  with its keys sorted.
\<close>

function Sprintf_v :: "any \<Rightarrow> string" where
  "Sprintf_v VNil = ''<nil>''"
| "Sprintf_v (VBool b) = (if b then ''true'' else ''false'')"
| "Sprintf_v (VInt i) = Itoa i"
| "Sprintf_v (VFloat f) = FormatFloat_g f"
| "Sprintf_v (VStr s) = s"
| "Sprintf_v (VPointer a) = (if a = 0 then ''<nil>'' else ''0x'' @ FormatHex a)"
| "Sprintf_v (VList xs) = ''['' @ Join (map Sprintf_v xs) '' '' @ '']''"
| "Sprintf_v (VMap kvs) =
     ''map['' @ Join (map (\<lambda>kv. fst kv @ '':'' @ Sprintf_v (snd kv)) (sort_key fst kvs)) '' ''
       @ '']''"
  by pat_completeness auto
termination
proof (relation "measure size")
  show "wf (measure (size :: any \<Rightarrow> nat))"
    by simp
next
  fix xs :: "any list" and x
  assume "x \<in> set xs"
  then show "(x, VList xs) \<in> measure size"
    by (induction xs) auto
next
  fix kvs :: "(string \<times> any) list" and kv
  assume "kv \<in> set (sort_key fst kvs)"
  then have "kv \<in> set kvs"
    by simp
  then show "(snd kv, VMap kvs) \<in> measure size"
    by (induction kvs) auto
qed

subsection \<open>net/url\<close>

text \<open>
  \<^verbatim>\<open>url.Values\<close> is a \<^verbatim>\<open>map[string][]string\<close>; it is an association list here, with one
  entry for each key, so that \<^verbatim>\<open>Encode\<close> can enumerate it.
\<close>

type_synonym Values = "(string \<times> string list) list"

definition Values_Add :: "string \<Rightarrow> string \<Rightarrow> Values \<Rightarrow> Values" where
  "Values_Add key val v =
     (case map_of v key of
        None \<Rightarrow> v @ [(key, [val])]
      | Some vs \<Rightarrow> map (\<lambda>kv. if fst kv = key then (key, vs @ [val]) else kv) v)"

text \<open>The index expression \<^verbatim>\<open>params[key]\<close>: \<^term>\<open>None\<close> when the key is absent.\<close>

definition Values_index :: "Values \<Rightarrow> string \<Rightarrow> string list option" where
  "Values_index v key = map_of v key"

definition shouldEscape :: "char \<Rightarrow> bool" where
  "shouldEscape c =
     (let n = (of_char c :: nat) in
      \<not> ((97 \<le> n \<and> n \<le> 122) \<or> (65 \<le> n \<and> n \<le> 90) \<or> (48 \<le> n \<and> n \<le> 57)
         \<or> c = CHR ''-'' \<or> c = CHR ''_'' \<or> c = CHR ''.'' \<or> c = CHR ''~''))"

definition upperhex :: string where
  "upperhex = ''0123456789ABCDEF''"

definition escapeByte :: "char \<Rightarrow> string" where
  "escapeByte c =
     (if c = CHR '' '' then ''+''
      else if shouldEscape c
        then [CHR ''%'', upperhex ! ((of_char c :: nat) div 16), upperhex ! ((of_char c :: nat) mod 16)]
      else [c])"

definition QueryEscape :: "string \<Rightarrow> string" where
  "QueryEscape s = concat (map escapeByte s)"

text \<open>\<^verbatim>\<open>Values.Encode\<close>: \<^verbatim>\<open>key=value\<close> items, sorted by key, joined by \<^verbatim>\<open>&\<close>.\<close>

definition Encode_items :: "Values \<Rightarrow> string list" where
  "Encode_items v =
     concat (map (\<lambda>kv. map (\<lambda>x. QueryEscape (fst kv) @ ''='' @ QueryEscape x) (snd kv))
                 (sort_key fst v))"

definition Encode :: "Values \<Rightarrow> string" where
  "Encode v = Join (Encode_items v) ''&''"

section \<open>Domain types (types.go)\<close>

record Message =
  Role :: string
  Content :: any

text \<open>A \<^verbatim>\<open>time.Time\<close> is kept as its RFC 3339 text.\<close>

type_synonym Time = string

type_synonym Event = string

record MemoryData =
  Memory :: string

record Memory =
  ID :: string
  Messages :: "Message list"
  Event :: "Event option"
  Data :: "MemoryData option"
  Memory :: "string option"
  UserID :: "string option"
  Hash :: "string option"
  Categories :: "string list"
  CreatedAt :: "Time option"
  UpdatedAt :: "Time option"
  MemoryType :: "string option"
  Score :: "float64 option"
  Metadata :: any
  Owner :: "string option"
  AgentID :: "string option"
  AppID :: "string option"
  RunID :: "string option"

record User =
  ID :: string
  Name :: string
  CreatedAt :: Time
  UpdatedAt :: Time
  TotalMemories :: int
  Owner :: string
  Type :: string

record AllUsers =
  Count :: int
  Results :: "User list"
  Next :: any
  Previous :: any

record MessageResponse =
  Message :: string

record DeleteUsersParams =
  UserID :: "string option"
  AgentID :: "string option"
  AppID :: "string option"
  RunID :: "string option"

text \<open>
  \<^verbatim>\<open>ClientOptions\<close> and \<^verbatim>\<open>MemoryClient\<close> are declared with the client.  The API key is
  kept as the sequence of the Unicode code points of its text, which is what
  \<^verbatim>\<open>strings.TrimSpace\<close> inspects.  The \<^verbatim>\<open>headers\<close> map and the \<^verbatim>\<open>http.Client\<close> of a
  \<^verbatim>\<open>MemoryClient\<close> are not part of the model.
\<close>

type_synonym rune = nat

record ClientOptions =
  APIKey :: "rune list"
  Host :: "string option"
  OrganizationName :: "string option"
  ProjectName :: "string option"
  OrganizationID :: any
  ProjectID :: any

record MemoryClient =
  apiKey :: "rune list"
  host :: string
  organizationName :: "string option"
  projectName :: "string option"
  organizationID :: any
  projectID :: any
  telemetryID :: string

record MemoryOptions =
  APIVersion :: "APIVersion option"
  Version :: "APIVersion option"
  UserID :: "string option"
  AgentID :: "string option"
  AppID :: "string option"
  RunID :: "string option"
  Metadata :: "(string \<times> any) list option"
  Filters :: "(string \<times> any) list option"
  OrgName :: "string option"
  ProjectName :: "string option"
  OrgID :: any
  ProjectID :: any
  Infer :: "bool option"
  Page :: "int option"
  PageSize :: "int option"
  Includes :: "string option"
  Excludes :: "string option"
  EnableGraph :: "bool option"
  StartDate :: "string option"
  EndDate :: "string option"
  CustomCategories :: "(string \<times> any) list list option"
  CustomInstructions :: "string option"
  Timestamp :: "int option"
  OutputFormat :: "OutputFormat option"
  AsyncMode :: "bool option"

text \<open>
  \<^verbatim>\<open>SearchOptions\<close> embeds \<^verbatim>\<open>MemoryOptions\<close>.  Its own \<^verbatim>\<open>EnableGraph\<close> field hides the
  embedded one in Go; it is called \<open>Search_EnableGraph\<close> here.
\<close>

record SearchOptions = MemoryOptions +
  Limit :: "int option"
  Search_EnableGraph :: "bool option"
  Threshold :: "float64 option"
  TopK :: "int option"
  OnlyMetadataBasedSearch :: "bool option"
  KeywordSearch :: "bool option"
  Fields :: "string list option"
  Categories :: "string list option"
  Rerank :: "bool option"

text \<open>The zero value \<^verbatim>\<open>MemoryOptions{}\<close>.\<close>

definition MemoryOptions_zero :: MemoryOptions where
  "MemoryOptions_zero =
     \<lparr>APIVersion = None, Version = None, UserID = None, AgentID = None, AppID = None,
      RunID = None, Metadata = None, Filters = None, OrgName = None, ProjectName = None,
      OrgID = VNil, ProjectID = VNil, Infer = None, Page = None, PageSize = None,
      Includes = None, Excludes = None, EnableGraph = None, StartDate = None, EndDate = None,
      CustomCategories = None, CustomInstructions = None, Timestamp = None,
      OutputFormat = None, AsyncMode = None\<rparr>"

text \<open>The zero value \<^verbatim>\<open>SearchOptions{}\<close>.\<close>

definition SearchOptions_zero :: SearchOptions where
  "SearchOptions_zero =
     MemoryOptions.extend MemoryOptions_zero
       (SearchOptions.fields None None None None None None None None None)"

text \<open>
  The fields of the two option structs with the wire names of their \<^verbatim>\<open>json\<close> tags, and
  the test \<^verbatim>\<open>field != nil\<close>.
\<close>

datatype MemoryOptions_field =
    F_APIVersion | F_Version | F_UserID | F_AgentID | F_AppID | F_RunID | F_Metadata
  | F_Filters | F_OrgName | F_ProjectName | F_OrgID | F_ProjectID | F_Infer | F_Page
  | F_PageSize | F_Includes | F_Excludes | F_EnableGraph | F_StartDate | F_EndDate
  | F_CustomCategories | F_CustomInstructions | F_Timestamp | F_OutputFormat | F_AsyncMode

fun MemoryOptions_tag :: "MemoryOptions_field \<Rightarrow> string" where
  "MemoryOptions_tag F_APIVersion = ''api_version''"
| "MemoryOptions_tag F_Version = ''version''"
| "MemoryOptions_tag F_UserID = ''user_id''"
| "MemoryOptions_tag F_AgentID = ''agent_id''"
| "MemoryOptions_tag F_AppID = ''app_id''"
| "MemoryOptions_tag F_RunID = ''run_id''"
| "MemoryOptions_tag F_Metadata = ''metadata''"
| "MemoryOptions_tag F_Filters = ''filters''"
| "MemoryOptions_tag F_OrgName = ''org_name''"
| "MemoryOptions_tag F_ProjectName = ''project_name''"
| "MemoryOptions_tag F_OrgID = ''org_id''"
| "MemoryOptions_tag F_ProjectID = ''project_id''"
| "MemoryOptions_tag F_Infer = ''infer''"
| "MemoryOptions_tag F_Page = ''page''"
| "MemoryOptions_tag F_PageSize = ''page_size''"
| "MemoryOptions_tag F_Includes = ''includes''"
| "MemoryOptions_tag F_Excludes = ''excludes''"
| "MemoryOptions_tag F_EnableGraph = ''enable_graph''"
| "MemoryOptions_tag F_StartDate = ''start_date''"
| "MemoryOptions_tag F_EndDate = ''end_date''"
| "MemoryOptions_tag F_CustomCategories = ''custom_categories''"
| "MemoryOptions_tag F_CustomInstructions = ''custom_instructions''"
| "MemoryOptions_tag F_Timestamp = ''timestamp''"
| "MemoryOptions_tag F_OutputFormat = ''output_format''"
| "MemoryOptions_tag F_AsyncMode = ''async_mode''"

fun MemoryOptions_isset :: "'a MemoryOptions_scheme \<Rightarrow> MemoryOptions_field \<Rightarrow> bool" where
  "MemoryOptions_isset opts F_APIVersion = (APIVersion opts \<noteq> None)"
| "MemoryOptions_isset opts F_Version = (Version opts \<noteq> None)"
| "MemoryOptions_isset opts F_UserID = (UserID opts \<noteq> None)"
| "MemoryOptions_isset opts F_AgentID = (AgentID opts \<noteq> None)"
| "MemoryOptions_isset opts F_AppID = (AppID opts \<noteq> None)"
| "MemoryOptions_isset opts F_RunID = (RunID opts \<noteq> None)"
| "MemoryOptions_isset opts F_Metadata = (Metadata opts \<noteq> None)"
| "MemoryOptions_isset opts F_Filters = (Filters opts \<noteq> None)"
| "MemoryOptions_isset opts F_OrgName = (OrgName opts \<noteq> None)"
| "MemoryOptions_isset opts F_ProjectName = (ProjectName opts \<noteq> None)"
| "MemoryOptions_isset opts F_OrgID = (OrgID opts \<noteq> VNil)"
| "MemoryOptions_isset opts F_ProjectID = (ProjectID opts \<noteq> VNil)"
| "MemoryOptions_isset opts F_Infer = (Infer opts \<noteq> None)"
| "MemoryOptions_isset opts F_Page = (Page opts \<noteq> None)"
| "MemoryOptions_isset opts F_PageSize = (PageSize opts \<noteq> None)"
| "MemoryOptions_isset opts F_Includes = (Includes opts \<noteq> None)"
| "MemoryOptions_isset opts F_Excludes = (Excludes opts \<noteq> None)"
| "MemoryOptions_isset opts F_EnableGraph = (EnableGraph opts \<noteq> None)"
| "MemoryOptions_isset opts F_StartDate = (StartDate opts \<noteq> None)"
| "MemoryOptions_isset opts F_EndDate = (EndDate opts \<noteq> None)"
| "MemoryOptions_isset opts F_CustomCategories = (CustomCategories opts \<noteq> None)"
| "MemoryOptions_isset opts F_CustomInstructions = (CustomInstructions opts \<noteq> None)"
| "MemoryOptions_isset opts F_Timestamp = (Timestamp opts \<noteq> None)"
| "MemoryOptions_isset opts F_OutputFormat = (OutputFormat opts \<noteq> None)"
| "MemoryOptions_isset opts F_AsyncMode = (AsyncMode opts \<noteq> None)"

datatype SearchOptions_field =
    F_Embedded MemoryOptions_field
  | F_Limit | F_Search_EnableGraph | F_Threshold | F_TopK | F_OnlyMetadataBasedSearch
  | F_KeywordSearch | F_Fields | F_Categories | F_Rerank

fun SearchOptions_tag :: "SearchOptions_field \<Rightarrow> string" where
  "SearchOptions_tag (F_Embedded f) = MemoryOptions_tag f"
| "SearchOptions_tag F_Limit = ''limit''"
| "SearchOptions_tag F_Search_EnableGraph = ''enable_graph''"
| "SearchOptions_tag F_Threshold = ''threshold''"
| "SearchOptions_tag F_TopK = ''top_k''"
| "SearchOptions_tag F_OnlyMetadataBasedSearch = ''only_metadata_based_search''"
| "SearchOptions_tag F_KeywordSearch = ''keyword_search''"
| "SearchOptions_tag F_Fields = ''fields''"
| "SearchOptions_tag F_Categories = ''categories''"
| "SearchOptions_tag F_Rerank = ''rerank''"

fun SearchOptions_isset :: "SearchOptions \<Rightarrow> SearchOptions_field \<Rightarrow> bool" where
  "SearchOptions_isset opts (F_Embedded f) = MemoryOptions_isset opts f"
| "SearchOptions_isset opts F_Limit = (Limit opts \<noteq> None)"
| "SearchOptions_isset opts F_Search_EnableGraph = (Search_EnableGraph opts \<noteq> None)"
| "SearchOptions_isset opts F_Threshold = (Threshold opts \<noteq> None)"
| "SearchOptions_isset opts F_TopK = (TopK opts \<noteq> None)"
| "SearchOptions_isset opts F_OnlyMetadataBasedSearch = (OnlyMetadataBasedSearch opts \<noteq> None)"
| "SearchOptions_isset opts F_KeywordSearch = (KeywordSearch opts \<noteq> None)"
| "SearchOptions_isset opts F_Fields = (Fields opts \<noteq> None)"
| "SearchOptions_isset opts F_Categories = (Categories opts \<noteq> None)"
| "SearchOptions_isset opts F_Rerank = (Rerank opts \<noteq> None)"

section \<open>Request builder\<close>

type_synonym payload = "string \<rightharpoonup> any"

text \<open>The JSON image of a \<^verbatim>\<open>Message\<close>, by its struct tags.\<close>

definition Message_value :: "Message \<Rightarrow> any" where
  "Message_value m = VMap [(''role'', VStr (Role m)), (''content'', Content m)]"

text \<open>
  The statement \<^verbatim>\<open>if field != nil { payload[key] = *field }\<close>, which \<^verbatim>\<open>preparePayload\<close>
  repeats for each option; the second argument is the field already converted to the
  value that is stored.
\<close>

fun set_present :: "string \<Rightarrow> any option \<Rightarrow> payload \<Rightarrow> payload" where
  "set_present key None p = p"
| "set_present key (Some v) p = p(key \<mapsto> v)"

text \<open>An \<^verbatim>\<open>interface{}\<close> field is stored when it is not \<^verbatim>\<open>nil\<close>.\<close>

definition non_nil :: "any \<Rightarrow> any option" where
  "non_nil v = (if v \<noteq> VNil then Some v else None)"

definition preparePayload :: "Message list \<Rightarrow> MemoryOptions \<Rightarrow> payload" where
  "preparePayload messages options =
     (set_present ''async_mode'' (map_option VBool (AsyncMode options))
      \<circ> set_present ''output_format'' (map_option VStr (OutputFormat options))
      \<circ> set_present ''custom_instructions'' (map_option VStr (CustomInstructions options))
      \<circ> set_present ''custom_categories''
          (map_option (\<lambda>cs. VList (map VMap cs)) (CustomCategories options))
      \<circ> set_present ''enable_graph'' (map_option VBool (EnableGraph options))
      \<circ> set_present ''infer'' (map_option VBool (Infer options))
      \<circ> set_present ''project_id'' (non_nil (ProjectID options))
      \<circ> set_present ''org_id'' (non_nil (OrgID options))
      \<circ> set_present ''project_name'' (map_option VStr (ProjectName options))
      \<circ> set_present ''org_name'' (map_option VStr (OrgName options))
      \<circ> set_present ''filters'' (map_option VMap (Filters options))
      \<circ> set_present ''metadata'' (map_option VMap (Metadata options))
      \<circ> set_present ''run_id'' (map_option VStr (RunID options))
      \<circ> set_present ''app_id'' (map_option VStr (AppID options))
      \<circ> set_present ''agent_id'' (map_option VStr (AgentID options))
      \<circ> set_present ''user_id'' (map_option VStr (UserID options))
      \<circ> set_present ''version'' (map_option VStr (Version options))
      \<circ> set_present ''api_version'' (map_option VStr (APIVersion options)))
       (Map.empty(''messages'' \<mapsto> VList (map Message_value messages)))"

text \<open>The statement \<^verbatim>\<open>if field != nil { params.Add(key, *field) }\<close> of \<^verbatim>\<open>prepareParams\<close>.\<close>

fun add_present :: "string \<Rightarrow> string option \<Rightarrow> Values \<Rightarrow> Values" where
  "add_present key None v = v"
| "add_present key (Some s) v = Values_Add key s v"

text \<open>
  The argument of \<^verbatim>\<open>prepareParams\<close> is an \<^verbatim>\<open>interface{}\<close> on which the function does a
  type switch.
\<close>

datatype options_arg =
    MemoryOptions_arg MemoryOptions
  | SearchOptions_arg SearchOptions
  | Other_arg

fun prepareParams :: "options_arg \<Rightarrow> Values" where
  "prepareParams (MemoryOptions_arg opts) =
     (add_present ''project_id'' (map_option Sprintf_v (non_nil (ProjectID opts)))
      \<circ> add_present ''org_id'' (map_option Sprintf_v (non_nil (OrgID opts)))
      \<circ> add_present ''project_name'' (ProjectName opts)
      \<circ> add_present ''org_name'' (OrgName opts)
      \<circ> add_present ''run_id'' (RunID opts)
      \<circ> add_present ''app_id'' (AppID opts)
      \<circ> add_present ''agent_id'' (AgentID opts)
      \<circ> add_present ''user_id'' (UserID opts)) []"
| "prepareParams (SearchOptions_arg opts) =
     (let memOpts = MemoryOptions.truncate opts
      in add_present ''user_id'' (UserID memOpts) [])"
| "prepareParams Other_arg = []"

section \<open>Error model (errors.go)\<close>

text \<open>
  The two error types of the package, and the errors that are not of these types: an error
  value of a library (\<^verbatim>\<open>net/http\<close>, \<^verbatim>\<open>io\<close>, \<^verbatim>\<open>encoding/json\<close>) with its text, and the
  results of \<^verbatim>\<open>fmt.Errorf\<close>, with a wrapped error (the verb \<^verbatim>\<open>%w\<close>) or without.
\<close>

datatype error =
    APIError string int string
  | ValidationError string string
  | LibError string
  | Errorf_w string error
  | Errorf string

definition NewAPIError :: "string \<Rightarrow> int \<Rightarrow> string \<Rightarrow> error" where
  "NewAPIError message statusCode body = APIError message statusCode body"

definition NewValidationError :: "string \<Rightarrow> string \<Rightarrow> error" where
  "NewValidationError field message = ValidationError field message"

text \<open>The method \<^verbatim>\<open>Error()\<close>.\<close>

fun Error :: "error \<Rightarrow> string" where
  "Error (APIError message statusCode body) =
     (if statusCode > 0
      then ''API request failed (status '' @ Itoa statusCode @ ''): '' @ message
      else ''API request failed: '' @ message)"
| "Error (ValidationError field message) =
     (if field \<noteq> ''''
      then ''validation error for field '' @ [CHR 0x27] @ field @ [CHR 0x27] @ '': '' @ message
      else ''validation error: '' @ message)"
| "Error (LibError text) = text"
| "Error (Errorf_w prefix err) = prefix @ Error err"
| "Error (Errorf text) = text"

text \<open>The dynamic type of an error value, as a type switch on it sees it.\<close>

fun is_APIError :: "error \<Rightarrow> bool" where
  "is_APIError (APIError message statusCode body) = True"
| "is_APIError err = False"

fun is_ValidationError :: "error \<Rightarrow> bool" where
  "is_ValidationError (ValidationError field message) = True"
| "is_ValidationError err = False"

section \<open>Transport\<close>

text \<open>
  One call of \<^verbatim>\<open>fetchWithErrorHandling\<close> hands a request to the \<^verbatim>\<open>net/http\<close> library.
  What comes back is decided outside the program: the request cannot be built, the round
  trip fails (DNS, refused connection, cancelled context, timeout), the body cannot be
  read, or there is a response with a status code and a body.  The environment gives this
  outcome for each request, depending on the calls made before, and it holds the decoders of
  \<^verbatim>\<open>encoding/json\<close>: \<^verbatim>\<open>json.Unmarshal\<close> into an \<^verbatim>\<open>interface{}\<close>, and the decoding into a
  typed target that \<^verbatim>\<open>parseResponse\<close> does by marshalling and unmarshalling again.
  It also says whether \<^verbatim>\<open>json.Marshal\<close> fails on a request body (on a \<^verbatim>\<open>float64\<close>
  that is not a number, for one), with the text of the error; the bytes of a body that
  can be marshalled are not modelled, a request keeps its body as the map.
\<close>

record Request =
  Method :: string
  URL :: string
  Body :: "payload option"

datatype http_outcome =
    NewRequest_failed string
  | Do_failed string
  | ReadAll_failed string
  | Response int string

record env =
  roundTrip :: "Request list \<Rightarrow> Request \<Rightarrow> http_outcome"
  json_Marshal :: "payload \<Rightarrow> string option"
  json_Unmarshal :: "string \<Rightarrow> string + any"
  decode_Memories :: "any \<Rightarrow> string + Memory list"
  decode_AllUsers :: "any \<Rightarrow> string + AllUsers"

text \<open>
  The list of requests is the log of the calls made so far; each call is appended to it.
  When the body cannot be marshalled the function returns before it makes a call.
\<close>

definition fetchWithErrorHandling ::
  "env \<Rightarrow> MemoryClient \<Rightarrow> Request list \<Rightarrow> string \<Rightarrow> string \<Rightarrow> payload option
     \<Rightarrow> (error + any) \<times> Request list" where
  "fetchWithErrorHandling e c log method endpoint body =
     (case (case body of None \<Rightarrow> None | Some p \<Rightarrow> json_Marshal e p) of
        Some text \<Rightarrow>
          (Inl (Errorf_w ''failed to marshal request body: '' (LibError text)), log)
      | None \<Rightarrow>
     (let req = \<lparr>Method = method, URL = host c @ endpoint, Body = body\<rparr>
      in ((case roundTrip e log req of
             NewRequest_failed text \<Rightarrow> Inl (Errorf_w ''failed to create request: '' (LibError text))
           | Do_failed text \<Rightarrow> Inl (Errorf_w ''request failed: '' (LibError text))
           | ReadAll_failed text \<Rightarrow>
               Inl (Errorf_w ''failed to read response body: '' (LibError text))
           | Response statusCode respBody \<Rightarrow>
               if statusCode < 200 \<or> statusCode \<ge> 300
               then Inl (NewAPIError respBody statusCode respBody)
               else (case json_Unmarshal e respBody of
                       Inl text \<Rightarrow>
                         Inl (Errorf_w ''failed to parse response JSON: '' (LibError text))
                     | Inr result \<Rightarrow> Inr result)),
          log @ [req])))"

text \<open>\<^verbatim>\<open>parseResponse\<close> (utils.go), for the decoder of its target type.\<close>

definition parseResponse :: "(any \<Rightarrow> string + 'a) \<Rightarrow> any \<Rightarrow> error + 'a" where
  "parseResponse decode response =
     (case decode response of
        Inl text \<Rightarrow> Inl (Errorf_w ''failed to unmarshal response: '' (LibError text))
      | Inr target \<Rightarrow> Inr target)"

section \<open>Client construction\<close>

text \<open>\<^verbatim>\<open>unicode.IsSpace\<close> and \<^verbatim>\<open>strings.TrimSpace\<close>.\<close>

definition IsSpace :: "rune \<Rightarrow> bool" where
  "IsSpace r =
     (r \<in> {0x09, 0x0A, 0x0B, 0x0C, 0x0D, 0x20, 0x85, 0xA0, 0x1680, 0x2028, 0x2029, 0x202F,
           0x205F, 0x3000}
      \<or> (0x2000 \<le> r \<and> r \<le> 0x200A))"

definition TrimSpace :: "rune list \<Rightarrow> rune list" where
  "TrimSpace s = rev (dropWhile IsSpace (rev (dropWhile IsSpace s)))"

definition validateAPIKey :: "rune list \<Rightarrow> error option" where
  "validateAPIKey key =
     (if key = [] then Some (NewValidationError ''apiKey'' ''Mem0 API key is required'')
      else if TrimSpace key = []
        then Some (NewValidationError ''apiKey'' ''Mem0 API key cannot be empty'')
      else None)"

text \<open>The type assertion \<^verbatim>\<open>responseMap[key].(string)\<close>.\<close>

fun assert_string :: "any option \<Rightarrow> string option" where
  "assert_string (Some (VStr s)) = Some s"
| "assert_string v = None"

text \<open>
  The operations change the client through its pointer; they return the client and the
  log of calls next to their result.
\<close>

definition Ping :: "env \<Rightarrow> MemoryClient \<Rightarrow> Request list
    \<Rightarrow> error option \<times> MemoryClient \<times> Request list" where
  "Ping e c log =
     (case fetchWithErrorHandling e c log ''GET'' ''/v1/ping/'' None of
        (Inl err, log) \<Rightarrow> (Some (Errorf_w ''failed to ping server: '' err), c, log)
      | (Inr response, log) \<Rightarrow>
          (case response of
             VMap responseMap \<Rightarrow>
               if assert_string (map_of responseMap ''status'') \<noteq> Some ''ok''
               then
                 (let message =
                        (case assert_string (map_of responseMap ''message'') of
                           None \<Rightarrow> '''' | Some m \<Rightarrow> m);
                      message = (if message = '''' then ''API Key is invalid'' else message)
                  in (Some (NewAPIError message 0 ''''), c, log))
               else
                 (let c = (case map_of responseMap ''org_id'' of
                             Some orgID \<Rightarrow>
                               if organizationID c = VNil then c\<lparr>organizationID := orgID\<rparr> else c
                           | None \<Rightarrow> c);
                      c = (case map_of responseMap ''project_id'' of
                             Some projectID' \<Rightarrow>
                               if projectID c = VNil then c\<lparr>projectID := projectID'\<rparr> else c
                           | None \<Rightarrow> c);
                      c = (case assert_string (map_of responseMap ''user_email'') of
                             Some userEmail \<Rightarrow> c\<lparr>telemetryID := userEmail\<rparr>
                           | None \<Rightarrow> c)
                  in (None, c, log))
           | _ \<Rightarrow>
               (Some (NewAPIError ''Invalid response format from ping endpoint'' 0 ''''), c, log)))"

text \<open>
  \<^verbatim>\<open>initializeClient\<close>; \<^verbatim>\<open>validateOrgProject\<close>, which it calls after the ping, only prints
  warnings.
\<close>

definition initializeClient :: "env \<Rightarrow> MemoryClient \<Rightarrow> Request list
    \<Rightarrow> error option \<times> MemoryClient \<times> Request list" where
  "initializeClient e c log =
     (case Ping e c log of
        (Some err, c, log) \<Rightarrow> (Some err, c, log)
      | (None, c, log) \<Rightarrow> (None, c, log))"

text \<open>
  \<^verbatim>\<open>NewMemoryClient\<close> prints the error of \<^verbatim>\<open>initializeClient\<close> and returns the client all
  the same.
\<close>

definition NewMemoryClient :: "env \<Rightarrow> Request list \<Rightarrow> ClientOptions
    \<Rightarrow> (error + MemoryClient) \<times> Request list" where
  "NewMemoryClient e log options =
     (case validateAPIKey (APIKey options) of
        Some err \<Rightarrow> (Inl err, log)
      | None \<Rightarrow>
          (let host = (case Host options of Some h \<Rightarrow> h | None \<Rightarrow> ''https://api.mem0.ai'');
               client = \<lparr>apiKey = APIKey options, host = host,
                         organizationName = OrganizationName options,
                         projectName = ClientOptions.ProjectName options,
                         organizationID = OrganizationID options,
                         projectID = ClientOptions.ProjectID options,
                         telemetryID = ''''\<rparr>
           in (case initializeClient e client log of
                 (err, client, log) \<Rightarrow> (Inr client, log))))"

section \<open>Operations of the client\<close>

text \<open>
  Every operation starts with
  \<^verbatim>\<open>if c.telemetryID == "" { if err := c.Ping(ctx); err != nil { return nil, err } }\<close>.
\<close>

definition ping_if_no_telemetryID :: "env \<Rightarrow> MemoryClient \<Rightarrow> Request list
    \<Rightarrow> error option \<times> MemoryClient \<times> Request list" where
  "ping_if_no_telemetryID e c log = (if telemetryID c = '''' then Ping e c log else (None, c, log))"

text \<open>
  The block ``set organization/project info'' that \<^verbatim>\<open>Add\<close>, \<^verbatim>\<open>GetAll\<close>, \<^verbatim>\<open>Users\<close> and
  \<^verbatim>\<open>DeleteUsers\<close> each contain: the names of the client are copied when both are set,
  then the ids are copied and the names cleared when both ids are set.
\<close>

definition set_org_project :: "MemoryClient \<Rightarrow> 'a MemoryOptions_scheme \<Rightarrow> 'a MemoryOptions_scheme" where
  "set_org_project c opts =
     (let opts = (if organizationName c \<noteq> None \<and> projectName c \<noteq> None
                  then opts\<lparr>OrgName := organizationName c, ProjectName := projectName c\<rparr>
                  else opts)
      in if organizationID c \<noteq> VNil \<and> projectID c \<noteq> VNil
         then opts\<lparr>OrgID := organizationID c, ProjectID := projectID c,
                   OrgName := None, ProjectName := None\<rparr>
         else opts)"

text \<open>The options of an operation are variadic; the first one is used.\<close>

definition Add :: "env \<Rightarrow> MemoryClient \<Rightarrow> Request list \<Rightarrow> Message list \<Rightarrow> MemoryOptions list
    \<Rightarrow> (error + Memory list) \<times> MemoryClient \<times> Request list" where
  "Add e c log messages options =
     (case ping_if_no_telemetryID e c log of
        (Some err, c, log) \<Rightarrow> (Inl err, c, log)
      | (None, c, log) \<Rightarrow>
          (let opts = (case options of [] \<Rightarrow> MemoryOptions_zero | opts0 # _ \<Rightarrow> opts0);
               opts = set_org_project c opts;
               opts = (case APIVersion opts of
                         Some version \<Rightarrow> opts\<lparr>Version := Some version\<rparr>
                       | None \<Rightarrow> opts);
               payload = preparePayload messages opts
           in (case fetchWithErrorHandling e c log ''POST'' ''/v1/memories/'' (Some payload) of
                 (Inl err, log) \<Rightarrow> (Inl err, c, log)
               | (Inr response, log) \<Rightarrow>
                   (case parseResponse (decode_Memories e) response of
                      Inl err \<Rightarrow> (Inl err, c, log)
                    | Inr memories \<Rightarrow> (Inr memories, c, log)))))"

text \<open>
  The part of \<^verbatim>\<open>GetAll\<close> from ``handle pagination'' to the end of the \<^verbatim>\<open>if\<close> on the
  API version: it computes the method, the endpoint and the request body from the
  options.
\<close>

definition GetAll_request :: "SearchOptions \<Rightarrow> string \<times> string \<times> payload option" where
  "GetAll_request opts =
     (let paginationParams =
            (case (Page opts, PageSize opts) of
               (Some page, Some pageSize) \<Rightarrow>
                 ''page='' @ Itoa page @ ''&page_size='' @ Itoa pageSize
             | _ \<Rightarrow> '''')
      in if APIVersion opts = Some APIVersionV2
         then (''POST'',
               if paginationParams \<noteq> '''' then ''/v2/memories/?'' @ paginationParams
               else ''/v2/memories/'',
               Some (set_present ''project_id'' (non_nil (ProjectID opts))
                      (set_present ''org_id'' (non_nil (OrgID opts)) Map.empty)))
         else
           (let params = prepareParams (MemoryOptions_arg (MemoryOptions.truncate opts));
                queryString = Encode params
            in (''GET'',
                if paginationParams \<noteq> '''' \<and> queryString \<noteq> ''''
                  then ''/v1/memories/?'' @ queryString @ ''&'' @ paginationParams
                else if paginationParams \<noteq> ''''
                  then ''/v1/memories/?'' @ paginationParams
                else if queryString \<noteq> ''''
                  then ''/v1/memories/?'' @ queryString
                else ''/v1/memories/'',
                None)))"

definition GetAll :: "env \<Rightarrow> MemoryClient \<Rightarrow> Request list \<Rightarrow> SearchOptions list
    \<Rightarrow> (error + Memory list) \<times> MemoryClient \<times> Request list" where
  "GetAll e c log options =
     (case ping_if_no_telemetryID e c log of
        (Some err, c, log) \<Rightarrow> (Inl err, c, log)
      | (None, c, log) \<Rightarrow>
          (let opts = (case options of [] \<Rightarrow> SearchOptions_zero | opts0 # _ \<Rightarrow> opts0);
               opts = set_org_project c opts
           in (case GetAll_request opts of
                 (method, endpoint, requestBody) \<Rightarrow>
                   (case fetchWithErrorHandling e c log method endpoint requestBody of
                      (Inl err, log) \<Rightarrow> (Inl err, c, log)
                    | (Inr response, log) \<Rightarrow>
                        (case parseResponse (decode_Memories e) response of
                           Inl err \<Rightarrow> (Inl err, c, log)
                         | Inr memories \<Rightarrow> (Inr memories, c, log))))))"

definition Users :: "env \<Rightarrow> MemoryClient \<Rightarrow> Request list
    \<Rightarrow> (error + AllUsers) \<times> MemoryClient \<times> Request list" where
  "Users e c log =
     (case ping_if_no_telemetryID e c log of
        (Some err, c, log) \<Rightarrow> (Inl err, c, log)
      | (None, c, log) \<Rightarrow>
          (let options = set_org_project c MemoryOptions_zero;
               params = prepareParams (MemoryOptions_arg options);
               endpoint = ''/v1/entities/?'' @ Encode params
           in (case fetchWithErrorHandling e c log ''GET'' endpoint None of
                 (Inl err, log) \<Rightarrow> (Inl err, c, log)
               | (Inr response, log) \<Rightarrow>
                   (case parseResponse (decode_AllUsers e) response of
                      Inl err \<Rightarrow> (Inl err, c, log)
                    | Inr users \<Rightarrow> (Inr users, c, log)))))"

text \<open>
  An element of \<^verbatim>\<open>toDelete\<close> is a map with the keys \<^verbatim>\<open>type\<close> and \<^verbatim>\<open>name\<close>: here the pair
  of the two values.  The loop ``delete each entity'' of \<^verbatim>\<open>DeleteUsers\<close> returns at the
  first call that fails.
\<close>

type_synonym entity = "string \<times> string"

definition entity_endpoint :: "MemoryOptions \<Rightarrow> entity \<Rightarrow> string" where
  "entity_endpoint requestOptions entity =
     (let endpoint = ''/v2/entities/'' @ fst entity @ ''/'' @ snd entity @ ''/'';
          params = prepareParams (MemoryOptions_arg requestOptions)
      in if Encode params \<noteq> '''' then endpoint @ ''?'' @ Encode params else endpoint)"

fun delete_each :: "env \<Rightarrow> MemoryClient \<Rightarrow> Request list \<Rightarrow> MemoryOptions \<Rightarrow> entity list
    \<Rightarrow> error option \<times> Request list" where
  "delete_each e c log requestOptions [] = (None, log)"
| "delete_each e c log requestOptions (entity # rest) =
     (case fetchWithErrorHandling e c log ''DELETE'' (entity_endpoint requestOptions entity) None of
        (Inl err, log) \<Rightarrow>
          (Some (NewAPIError
                   (''Failed to delete '' @ fst entity @ '' '' @ snd entity @ '': '' @ Error err)
                   0 ''''),
           log)
      | (Inr response, log) \<Rightarrow> delete_each e c log requestOptions rest)"

definition DeleteUsersParams_zero :: DeleteUsersParams where
  "DeleteUsersParams_zero =
     \<lparr>DeleteUsersParams.UserID = None, DeleteUsersParams.AgentID = None,
      DeleteUsersParams.AppID = None, DeleteUsersParams.RunID = None\<rparr>"

text \<open>
  The part of \<^verbatim>\<open>DeleteUsers\<close> after \<^verbatim>\<open>toDelete\<close> is known, from the test
  \<^verbatim>\<open>len(toDelete) == 0\<close> on.
\<close>

definition delete_resolved :: "env \<Rightarrow> MemoryClient \<Rightarrow> Request list \<Rightarrow> DeleteUsersParams
    \<Rightarrow> entity list \<Rightarrow> (error + MessageResponse) \<times> MemoryClient \<times> Request list" where
  "delete_resolved e c log deleteParams toDelete =
     (if length toDelete = 0 then (Inl (Errorf ''no entities to delete''), c, log)
      else
        (let requestOptions = set_org_project c MemoryOptions_zero
         in (case delete_each e c log requestOptions toDelete of
               (Some err, log) \<Rightarrow> (Inl err, c, log)
             | (None, log) \<Rightarrow>
                 (let message = ''All users, agents, apps and runs deleted.'';
                      message =
                        (if DeleteUsersParams.UserID deleteParams \<noteq> None
                            \<or> DeleteUsersParams.AgentID deleteParams \<noteq> None
                            \<or> DeleteUsersParams.AppID deleteParams \<noteq> None
                            \<or> DeleteUsersParams.RunID deleteParams \<noteq> None
                         then ''Entity deleted successfully.'' else message)
                  in (Inr \<lparr>Message = message\<rparr>, c, log)))))"

definition DeleteUsers :: "env \<Rightarrow> MemoryClient \<Rightarrow> Request list \<Rightarrow> DeleteUsersParams list
    \<Rightarrow> (error + MessageResponse) \<times> MemoryClient \<times> Request list" where
  "DeleteUsers e c log params =
     (case ping_if_no_telemetryID e c log of
        (Some err, c, log) \<Rightarrow> (Inl err, c, log)
      | (None, c, log) \<Rightarrow>
          (let deleteParams = (case params of [] \<Rightarrow> DeleteUsersParams_zero | p # _ \<Rightarrow> p)
           in (case DeleteUsersParams.UserID deleteParams of
                 Some userID \<Rightarrow> delete_resolved e c log deleteParams [(''user'', userID)]
               | None \<Rightarrow>
             (case DeleteUsersParams.AgentID deleteParams of
                 Some agentID \<Rightarrow> delete_resolved e c log deleteParams [(''agent'', agentID)]
               | None \<Rightarrow>
             (case DeleteUsersParams.AppID deleteParams of
                 Some appID \<Rightarrow> delete_resolved e c log deleteParams [(''app'', appID)]
               | None \<Rightarrow>
             (case DeleteUsersParams.RunID deleteParams of
                 Some runID \<Rightarrow> delete_resolved e c log deleteParams [(''run'', runID)]
               | None \<Rightarrow>
                   (case Users e c log of
                      (Inl err, c, log) \<Rightarrow> (Inl err, c, log)
                    | (Inr entities, c, log) \<Rightarrow>
                        delete_resolved e c log deleteParams
                          (map (\<lambda>entity. (Type entity, Name entity)) (Results entities)))))))))"

section \<open>Vocabulary for the properties\<close>

text \<open>The call that \<^verbatim>\<open>DeleteUsers\<close> makes for one entity.\<close>

definition delete_call :: "MemoryClient \<Rightarrow> MemoryOptions \<Rightarrow> entity \<Rightarrow> Request" where
  "delete_call c requestOptions entity =
     \<lparr>Method = ''DELETE'', URL = host c @ entity_endpoint requestOptions entity, Body = None\<rparr>"

text \<open>
  The call that \<^verbatim>\<open>DeleteUsers\<close> makes for one entity when the client is \<open>c\<close>, and the
  elements of \<^verbatim>\<open>toDelete\<close> for a list of entities.
\<close>

definition entity_call :: "MemoryClient \<Rightarrow> entity \<Rightarrow> Request" where
  "entity_call c entity = delete_call c (set_org_project c MemoryOptions_zero) entity"

definition entities_of :: "AllUsers \<Rightarrow> entity list" where
  "entities_of entities = map (\<lambda>entity. (Type entity, Name entity)) (Results entities)"

text \<open>The request body, if there is one, can be marshalled.\<close>

definition marshals :: "env \<Rightarrow> payload option \<Rightarrow> bool" where
  "marshals e body = (case body of None \<Rightarrow> True | Some p \<Rightarrow> json_Marshal e p = None)"

text \<open>
  A call succeeds when \<^verbatim>\<open>fetchWithErrorHandling\<close> returns no error for it: the response
  has a status code in 200..299 and a body that is JSON.
\<close>

definition call_succeeds :: "env \<Rightarrow> Request list \<Rightarrow> Request \<Rightarrow> bool" where
  "call_succeeds e log req =
     (case roundTrip e log req of
        Response statusCode respBody \<Rightarrow>
          200 \<le> statusCode \<and> statusCode < 300
          \<and> (case json_Unmarshal e respBody of Inr result \<Rightarrow> True | Inl text \<Rightarrow> False)
      | _ \<Rightarrow> False)"

text \<open>The calls \<open>reqs\<close>, made one after the other from the log \<open>log\<close> on, all succeed.\<close>

fun calls_succeed :: "env \<Rightarrow> Request list \<Rightarrow> Request list \<Rightarrow> bool" where
  "calls_succeed e log [] = True"
| "calls_succeed e log (req # reqs) = (call_succeeds e log req \<and> calls_succeed e (log @ [req]) reqs)"

text \<open>The number of \<^verbatim>\<open>DELETE\<close> calls among the calls made after the first \<open>n\<close> of a log.\<close>

definition DELETE_calls_after :: "nat \<Rightarrow> Request list \<Rightarrow> nat" where
  "DELETE_calls_after n log = length (filter (\<lambda>req. Method req = ''DELETE'') (drop n log))"

text \<open>The number that a decimal text denotes: an optional minus sign and digits.\<close>

definition digits_value :: "string \<Rightarrow> nat" where
  "digits_value s = foldl (\<lambda>n ch. 10 * n + (of_char ch - 48)) 0 s"

definition decimal_value :: "string \<Rightarrow> int" where
  "decimal_value s =
     (case s of
        [] \<Rightarrow> 0
      | ch # rest \<Rightarrow> if ch = CHR ''-'' then - int (digits_value rest) else int (digits_value s))"

text \<open>
  Reading an endpoint the way a server does: the path is the part before the first
  \<^verbatim>\<open>?\<close>, the query the part after it; the query is a list of items separated by \<^verbatim>\<open>&\<close>, and
  the key of an item is the part before its first \<^verbatim>\<open>=\<close>.
\<close>

definition endpoint_path :: "string \<Rightarrow> string" where
  "endpoint_path endpoint = takeWhile (\<lambda>ch. ch \<noteq> CHR ''?'') endpoint"

definition endpoint_query :: "string \<Rightarrow> string" where
  "endpoint_query endpoint = drop 1 (dropWhile (\<lambda>ch. ch \<noteq> CHR ''?'') endpoint)"

fun split_on :: "char \<Rightarrow> string \<Rightarrow> string list" where
  "split_on sep [] = [[]]"
| "split_on sep (ch # s) =
     (if ch = sep then [] # split_on sep s
      else (case split_on sep s of [] \<Rightarrow> [[ch]] | x # xs \<Rightarrow> (ch # x) # xs))"

definition query_items :: "string \<Rightarrow> string list" where
  "query_items endpoint =
     (if endpoint_query endpoint = [] then [] else split_on (CHR ''&'') (endpoint_query endpoint))"

definition item_key :: "string \<Rightarrow> string" where
  "item_key item = takeWhile (\<lambda>ch. ch \<noteq> CHR ''='') item"

definition query_keys :: "string \<Rightarrow> string list" where
  "query_keys endpoint = map item_key (query_items endpoint)"

text \<open>The two pagination items, present when both \<^verbatim>\<open>Page\<close> and \<^verbatim>\<open>PageSize\<close> are set.\<close>

definition pagination_items :: "SearchOptions \<Rightarrow> string list" where
  "pagination_items opts =
     (case (Page opts, PageSize opts) of
        (Some page, Some pageSize) \<Rightarrow> [''page='' @ Itoa page, ''page_size='' @ Itoa pageSize]
      | _ \<Rightarrow> [])"

section \<open>Example environments and inputs\<close>

text \<open>
  A small decoder table standing for \<^verbatim>\<open>encoding/json\<close>, a client whose telemetry id is
  already known and one that has to ping first, used to run the operations on concrete
  inputs.
\<close>

definition example_Unmarshal :: "string \<Rightarrow> string + any" where
  "example_Unmarshal s =
     (if s = ''{\"status\":\"ok\",\"user_email\":\"a@b.io\"}''
        then Inr (VMap [(''status'', VStr ''ok''), (''user_email'', VStr ''a@b.io'')])
      else if s = ''{\"message\":\"ok\"}'' then Inr (VMap [(''message'', VStr ''ok'')])
      else if s = ''[]'' then Inr (VList [])
      else if s = ''{\"results\":[]}'' then Inr (VMap [(''results'', VList [])])
      else if s = ''{\"results\":[{\"name\":\"al\",\"type\":\"user\"},{\"name\":\"bot\",\"type\":\"agent\"}]}''
        then Inr (VMap [(''results'',
                         VList [VMap [(''name'', VStr ''al''), (''type'', VStr ''user'')],
                                VMap [(''name'', VStr ''bot''), (''type'', VStr ''agent'')]])])
      else Inl ''invalid character'')"

definition example_string_field :: "(string \<times> any) list \<Rightarrow> string \<Rightarrow> string" where
  "example_string_field m key = (case map_of m key of Some (VStr s) \<Rightarrow> s | _ \<Rightarrow> '''')"

definition example_User :: "any \<Rightarrow> User" where
  "example_User v =
     (let m = (case v of VMap m \<Rightarrow> m | _ \<Rightarrow> [])
      in \<lparr>ID = example_string_field m ''id'', Name = example_string_field m ''name'',
          CreatedAt = example_string_field m ''created_at'',
          UpdatedAt = example_string_field m ''updated_at'', TotalMemories = 0,
          Owner = example_string_field m ''owner'', Type = example_string_field m ''type''\<rparr>)"

definition example_decode_AllUsers :: "any \<Rightarrow> string + AllUsers" where
  "example_decode_AllUsers v =
     (case v of
        VMap m \<Rightarrow>
          Inr \<lparr>Count = 0,
               Results = (case map_of m ''results'' of
                            Some (VList us) \<Rightarrow> map example_User us | _ \<Rightarrow> []),
               Next = VNil, Previous = VNil\<rparr>
      | _ \<Rightarrow> Inl ''json: cannot unmarshal into Go value of type client.AllUsers'')"

definition example_decode_Memories :: "any \<Rightarrow> string + Memory list" where
  "example_decode_Memories v =
     (case v of VList [] \<Rightarrow> Inr []
      | _ \<Rightarrow> Inl ''json: cannot unmarshal into Go value of type []client.Memory'')"

definition example_env :: "(Request list \<Rightarrow> Request \<Rightarrow> http_outcome) \<Rightarrow> env" where
  "example_env rt =
     \<lparr>roundTrip = rt, json_Marshal = (\<lambda>p. None), json_Unmarshal = example_Unmarshal,
      decode_Memories = example_decode_Memories, decode_AllUsers = example_decode_AllUsers\<rparr>"

text \<open>
  A server that answers the ping, lists the entities given by the body \<open>entities\<close>,
  answers every \<^verbatim>\<open>POST\<close> with an empty list, the \<^verbatim>\<open>DELETE\<close> of the URL \<open>failing\<close> with the
  status \<open>status\<close> and every other \<^verbatim>\<open>DELETE\<close> with 200.
\<close>

definition example_server ::
  "string \<Rightarrow> string \<Rightarrow> int \<Rightarrow> Request list \<Rightarrow> Request \<Rightarrow> http_outcome" where
  "example_server entities failing status log req =
     (if Method req = ''GET'' \<and> URL req = ''https://api.mem0.ai/v1/ping/''
        then Response 200 ''{\"status\":\"ok\",\"user_email\":\"a@b.io\"}''
      else if Method req = ''GET'' then Response 200 entities
      else if Method req = ''POST'' then Response 200 ''[]''
      else if URL req = failing then Response status ''denied''
      else Response 200 ''{\"message\":\"ok\"}'')"

text \<open>A server that cannot be reached.\<close>

definition example_unreachable :: "Request list \<Rightarrow> Request \<Rightarrow> http_outcome" where
  "example_unreachable log req = Do_failed ''dial tcp: connection refused''"

definition example_client :: "string \<Rightarrow> MemoryClient" where
  "example_client telemetry =
     \<lparr>apiKey = [0x6D, 0x30, 0x2D, 0x6B], host = ''https://api.mem0.ai'',
      organizationName = None, projectName = None, organizationID = VNil, projectID = VNil,
      telemetryID = telemetry\<rparr>"

definition example_ClientOptions :: "rune list \<Rightarrow> ClientOptions" where
  "example_ClientOptions key =
     \<lparr>APIKey = key, Host = None, OrganizationName = None, ClientOptions.ProjectName = None,
      OrganizationID = VNil, ClientOptions.ProjectID = VNil\<rparr>"

text \<open>The listing of two entities, as the body of a response and decoded.\<close>

definition example_listing :: string where
  "example_listing =
     ''{\"results\":[{\"name\":\"al\",\"type\":\"user\"},{\"name\":\"bot\",\"type\":\"agent\"}]}''"

definition example_entities :: AllUsers where
  "example_entities =
     \<lparr>Count = 0,
      Results =
        [\<lparr>ID = '''', Name = ''al'', CreatedAt = '''', UpdatedAt = '''', TotalMemories = 0,
          Owner = '''', Type = ''user''\<rparr>,
         \<lparr>ID = '''', Name = ''bot'', CreatedAt = '''', UpdatedAt = '''', TotalMemories = 0,
          Owner = '''', Type = ''agent''\<rparr>],
      Next = VNil, Previous = VNil\<rparr>"

definition example_ping_call :: Request where
  "example_ping_call = \<lparr>Method = ''GET'', URL = ''https://api.mem0.ai/v1/ping/'', Body = None\<rparr>"

definition example_list_call :: Request where
  "example_list_call =
     \<lparr>Method = ''GET'', URL = ''https://api.mem0.ai/v1/entities/?'', Body = None\<rparr>"

definition example_delete_call :: "string \<Rightarrow> Request" where
  "example_delete_call path =
     \<lparr>Method = ''DELETE'', URL = ''https://api.mem0.ai/v2/entities/'' @ path, Body = None\<rparr>"

definition example_params :: "string option \<Rightarrow> string option \<Rightarrow> DeleteUsersParams" where
  "example_params user agent =
     \<lparr>DeleteUsersParams.UserID = user, DeleteUsersParams.AgentID = agent,
      DeleteUsersParams.AppID = None, DeleteUsersParams.RunID = None\<rparr>"

section \<open>Properties of the request builder\<close>

lemma set_present_apply:
  "set_present key v p k = (if k = key \<and> v \<noteq> None then v else p k)"
  by (cases v) auto

lemma map_of_Values_Add:
  "map_of (Values_Add key val v) k =
     (if k = key then Some ((case map_of v key of None \<Rightarrow> [] | Some vs \<Rightarrow> vs) @ [val])
      else map_of v k)"
proof (cases "map_of v key")
  case None
  then show ?thesis
    by (auto simp: Values_Add_def map_add_def split: option.splits)
next
  case (Some vs)
  have "map_of (map (\<lambda>kv. if fst kv = key then (key, vs @ [val]) else kv) v) k =
          (if k = key then map_option (\<lambda>_. vs @ [val]) (map_of v key) else map_of v k)"
    by (induction v) auto
  with Some show ?thesis
    by (simp add: Values_Add_def)
qed

lemma Values_index_add_present:
  "Values_index (add_present key s v) k =
     (if k = key \<and> s \<noteq> None
      then Some ((case Values_index v key of None \<Rightarrow> [] | Some vs \<Rightarrow> vs) @ [the s])
      else Values_index v k)"
  by (cases s) (simp_all add: Values_index_def map_of_Values_Add)

lemma Values_index_Nil: "Values_index [] k = None"
  by (simp add: Values_index_def)

lemma non_nil_eq_None: "non_nil v = None \<longleftrightarrow> v = VNil"
  by (simp add: non_nil_def)

lemma preparePayload_unset:
  "\<not> MemoryOptions_isset options f \<Longrightarrow> preparePayload messages options (MemoryOptions_tag f) = None"
  by (cases f) (simp_all add: preparePayload_def set_present_apply non_nil_eq_None)

lemma prepareParams_unset:
  "\<not> MemoryOptions_isset options f \<Longrightarrow>
     Values_index (prepareParams (MemoryOptions_arg options)) (MemoryOptions_tag f) = None"
  by (cases f) (simp_all add: Values_index_add_present Values_index_Nil non_nil_eq_None)

lemma preparePayload_present:
  assumes "preparePayload messages options k \<noteq> None"
  shows "k = ''messages'' \<or> (\<exists>f. MemoryOptions_isset options f \<and> k = MemoryOptions_tag f)"
proof -
  have "k = ''messages'' \<or>
        (\<exists>f \<in> set [F_APIVersion, F_Version, F_UserID, F_AgentID, F_AppID, F_RunID, F_Metadata,
                    F_Filters, F_OrgName, F_ProjectName, F_OrgID, F_ProjectID, F_Infer,
                    F_EnableGraph, F_CustomCategories, F_CustomInstructions, F_OutputFormat,
                    F_AsyncMode].
           MemoryOptions_isset options f \<and> k = MemoryOptions_tag f)"
    using assms
    by (simp add: preparePayload_def set_present_apply non_nil_eq_None split: if_splits)
  then show ?thesis
    by blast
qed

lemma prepareParams_present:
  assumes "Values_index (prepareParams (MemoryOptions_arg options)) k \<noteq> None"
  shows "\<exists>f. MemoryOptions_isset options f \<and> k = MemoryOptions_tag f"
proof -
  have "\<exists>f \<in> set [F_UserID, F_AgentID, F_AppID, F_RunID, F_OrgName, F_ProjectName, F_OrgID,
                   F_ProjectID].
           MemoryOptions_isset options f \<and> k = MemoryOptions_tag f"
    using assms
    by (simp add: Values_index_add_present Values_index_Nil non_nil_eq_None split: if_splits)
  then show ?thesis
    by blast
qed

lemma prepareParams_Search_unset:
  "\<not> SearchOptions_isset soptions g \<Longrightarrow>
     Values_index (prepareParams (SearchOptions_arg soptions)) (SearchOptions_tag g) = None"
proof (cases g)
  case (F_Embedded f)
  assume "\<not> SearchOptions_isset soptions g"
  with F_Embedded show ?thesis
    by (cases f)
       (simp_all add: Values_index_add_present Values_index_Nil MemoryOptions.truncate_def)
qed (simp_all add: Values_index_add_present Values_index_Nil)

lemma prepareParams_Search_present:
  assumes "Values_index (prepareParams (SearchOptions_arg soptions)) k \<noteq> None"
  shows "\<exists>g. SearchOptions_isset soptions g \<and> k = SearchOptions_tag g"
proof -
  have "SearchOptions_isset soptions (F_Embedded F_UserID) \<and> k = SearchOptions_tag (F_Embedded F_UserID)"
    using assms
    by (simp add: Values_index_add_present Values_index_Nil MemoryOptions.truncate_def
             split: if_splits)
  then show ?thesis
    by blast
qed

text \<open>
  Claim C1.  A field of a \<^verbatim>\<open>MemoryOptions\<close> that is left unset (\<^verbatim>\<open>nil\<close>) has its wire key
  absent from the body map of \<^verbatim>\<open>preparePayload\<close> and from the query parameters of
  \<^verbatim>\<open>prepareParams\<close>; a field of a \<^verbatim>\<open>SearchOptions\<close> that is left unset has its wire key
  absent from the query parameters of \<^verbatim>\<open>prepareParams\<close> (\<^verbatim>\<open>preparePayload\<close> takes a
  \<^verbatim>\<open>MemoryOptions\<close> only).  The only keys that appear are \<^verbatim>\<open>messages\<close> and the wire names
  of fields that are set.
\<close>

theorem unset_option_fields_are_omitted:
  "(\<not> MemoryOptions_isset options f \<longrightarrow>
      preparePayload messages options (MemoryOptions_tag f) = None \<and>
      Values_index (prepareParams (MemoryOptions_arg options)) (MemoryOptions_tag f) = None) \<and>
   (\<not> SearchOptions_isset soptions g \<longrightarrow>
      Values_index (prepareParams (SearchOptions_arg soptions)) (SearchOptions_tag g) = None) \<and>
   (preparePayload messages options k \<noteq> None \<longrightarrow>
      k = ''messages'' \<or> (\<exists>f'. MemoryOptions_isset options f' \<and> k = MemoryOptions_tag f')) \<and>
   (Values_index (prepareParams (MemoryOptions_arg options)) k \<noteq> None \<longrightarrow>
      (\<exists>f'. MemoryOptions_isset options f' \<and> k = MemoryOptions_tag f')) \<and>
   (Values_index (prepareParams (SearchOptions_arg soptions)) k \<noteq> None \<longrightarrow>
      (\<exists>g'. SearchOptions_isset soptions g' \<and> k = SearchOptions_tag g'))"
  using preparePayload_unset prepareParams_unset prepareParams_Search_unset
    preparePayload_present prepareParams_present prepareParams_Search_present
  by blast

theorem unset_option_fields_are_omitted_witness:
  "\<not> MemoryOptions_isset (MemoryOptions_zero\<lparr>UserID := Some ''alice''\<rparr>) F_AgentID \<and>
   preparePayload [] (MemoryOptions_zero\<lparr>UserID := Some ''alice''\<rparr>) ''agent_id'' = None \<and>
   Values_index (prepareParams (MemoryOptions_arg (MemoryOptions_zero\<lparr>UserID := Some ''alice''\<rparr>)))
     ''agent_id'' = None \<and>
   \<not> SearchOptions_isset (SearchOptions_zero\<lparr>UserID := Some ''alice''\<rparr>) F_Limit \<and>
   Values_index (prepareParams (SearchOptions_arg (SearchOptions_zero\<lparr>UserID := Some ''alice''\<rparr>)))
     ''limit'' = None \<and>
   preparePayload [] (MemoryOptions_zero\<lparr>UserID := Some ''alice''\<rparr>) ''user_id'' \<noteq> None \<and>
   MemoryOptions_isset (MemoryOptions_zero\<lparr>UserID := Some ''alice''\<rparr>) F_UserID \<and>
   Values_index (prepareParams (MemoryOptions_arg (MemoryOptions_zero\<lparr>UserID := Some ''alice''\<rparr>)))
     ''user_id'' \<noteq> None \<and>
   Values_index (prepareParams (SearchOptions_arg (SearchOptions_zero\<lparr>UserID := Some ''alice''\<rparr>)))
     ''user_id'' \<noteq> None"
  using unset_option_fields_are_omitted
    [of "MemoryOptions_zero\<lparr>UserID := Some ''alice''\<rparr>" F_AgentID "[]"
        "SearchOptions_zero\<lparr>UserID := Some ''alice''\<rparr>" F_Limit "''user_id''"]
  by (simp add: MemoryOptions_zero_def SearchOptions_zero_def MemoryOptions.extend_def
        SearchOptions.fields_def
        preparePayload_def Values_index_def Values_Add_def MemoryOptions.truncate_def non_nil_def)

section \<open>Properties of client construction\<close>

lemma TrimSpace_empty_iff: "TrimSpace s = [] \<longleftrightarrow> (\<forall>r \<in> set s. IsSpace r)"
proof -
  have "TrimSpace s = [] \<longleftrightarrow> (\<forall>r \<in> set (dropWhile IsSpace s). IsSpace r)"
    by (simp add: TrimSpace_def dropWhile_eq_Nil_conv)
  also have "\<dots> \<longleftrightarrow> dropWhile IsSpace s = []"
  proof
    assume all: "\<forall>r \<in> set (dropWhile IsSpace s). IsSpace r"
    show "dropWhile IsSpace s = []"
    proof (rule ccontr)
      assume ne: "dropWhile IsSpace s \<noteq> []"
      then have "\<not> IsSpace (hd (dropWhile IsSpace s))"
        by (rule hd_dropWhile)
      moreover from ne have "hd (dropWhile IsSpace s) \<in> set (dropWhile IsSpace s)"
        by simp
      ultimately show False
        using all by blast
    qed
  qed (auto dest: set_dropWhileD)
  also have "\<dots> \<longleftrightarrow> (\<forall>r \<in> set s. IsSpace r)"
    by (simp add: dropWhile_eq_Nil_conv)
  finally show ?thesis .
qed

lemma validateAPIKey_iff:
  "validateAPIKey key \<noteq> None \<longleftrightarrow> (\<forall>r \<in> set key. IsSpace r)"
  by (auto simp: validateAPIKey_def TrimSpace_empty_iff)

lemma validateAPIKey_field:
  "validateAPIKey key = Some err \<Longrightarrow> \<exists>message. err = ValidationError ''apiKey'' message"
  by (auto simp: validateAPIKey_def NewValidationError_def split: if_splits)


text \<open>
  Claim C4.  When the API key is empty or consists of white space only, \<^verbatim>\<open>NewMemoryClient\<close>
  returns a validation error with the field name \<^verbatim>\<open>apiKey\<close> and no client, and the log of
  calls is unchanged: nothing was sent.  For every other key the validation succeeds, and
  \<^verbatim>\<open>NewMemoryClient\<close> returns a client.
\<close>

theorem NewMemoryClient_validates_the_key:
  "((\<forall>r \<in> set (APIKey options). IsSpace r) \<longrightarrow>
      (\<exists>message. NewMemoryClient e log options = (Inl (ValidationError ''apiKey'' message), log))) \<and>
   (\<not> (\<forall>r \<in> set (APIKey options). IsSpace r) \<longrightarrow>
      validateAPIKey (APIKey options) = None \<and>
      (\<exists>client log'. NewMemoryClient e log options = (Inr client, log')))"
proof (intro conjI impI)
  assume "\<forall>r \<in> set (APIKey options). IsSpace r"
  then obtain err where err: "validateAPIKey (APIKey options) = Some err"
    using validateAPIKey_iff by blast
  then obtain message where "err = ValidationError ''apiKey'' message"
    using validateAPIKey_field by blast
  with err show "\<exists>message. NewMemoryClient e log options = (Inl (ValidationError ''apiKey'' message), log)"
    by (simp add: NewMemoryClient_def)
next
  assume "\<not> (\<forall>r \<in> set (APIKey options). IsSpace r)"
  then show ok: "validateAPIKey (APIKey options) = None"
    using validateAPIKey_iff by blast
  then show "\<exists>client log'. NewMemoryClient e log options = (Inr client, log')"
    by (simp add: NewMemoryClient_def Let_def split: prod.splits)
qed

theorem NewMemoryClient_validates_the_key_witness:
  "list_all IsSpace (APIKey (example_ClientOptions [0x20, 0x09, 0xA0])) \<and>
   NewMemoryClient (example_env example_unreachable) [] (example_ClientOptions [0x20, 0x09, 0xA0]) =
     (Inl (ValidationError ''apiKey'' ''Mem0 API key cannot be empty''), []) \<and>
   \<not> list_all IsSpace (APIKey (example_ClientOptions [0x6D, 0x30, 0x20])) \<and>
   validateAPIKey (APIKey (example_ClientOptions [0x6D, 0x30, 0x20])) = None \<and>
   NewMemoryClient (example_env example_unreachable) [] (example_ClientOptions [0x6D, 0x30, 0x20]) =
     (Inr ((example_client '''') \<lparr>apiKey := [0x6D, 0x30, 0x20]\<rparr>),
      [\<lparr>Method = ''GET'', URL = ''https://api.mem0.ai/v1/ping/'', Body = None\<rparr>])"
  using NewMemoryClient_validates_the_key
      [of "example_ClientOptions [0x20, 0x09, 0xA0]" "example_env example_unreachable" "[]"]
    NewMemoryClient_validates_the_key
      [of "example_ClientOptions [0x6D, 0x30, 0x20]" "example_env example_unreachable" "[]"]
  by (simp add: example_ClientOptions_def IsSpace_def NewMemoryClient_def validateAPIKey_def
        TrimSpace_def NewValidationError_def initializeClient_def Ping_def
        fetchWithErrorHandling_def example_env_def example_unreachable_def example_client_def)


section \<open>Reading the query parameters back\<close>

lemmas index_simps = Values_index_add_present Values_index_Nil

lemma index_user_id:
  "Values_index (prepareParams (MemoryOptions_arg options)) ''user_id''
     = map_option (\<lambda>s. [s]) (UserID options)"
  by (cases "UserID options") (simp_all add: index_simps del: add_present.simps)

lemma index_agent_id:
  "Values_index (prepareParams (MemoryOptions_arg options)) ''agent_id''
     = map_option (\<lambda>s. [s]) (AgentID options)"
  by (cases "AgentID options") (simp_all add: index_simps del: add_present.simps)

lemma index_app_id:
  "Values_index (prepareParams (MemoryOptions_arg options)) ''app_id''
     = map_option (\<lambda>s. [s]) (AppID options)"
  by (cases "AppID options") (simp_all add: index_simps del: add_present.simps)

lemma index_run_id:
  "Values_index (prepareParams (MemoryOptions_arg options)) ''run_id''
     = map_option (\<lambda>s. [s]) (RunID options)"
  by (cases "RunID options") (simp_all add: index_simps del: add_present.simps)

lemma index_org_name:
  "Values_index (prepareParams (MemoryOptions_arg options)) ''org_name''
     = map_option (\<lambda>s. [s]) (OrgName options)"
  by (cases "OrgName options") (simp_all add: index_simps del: add_present.simps)

lemma index_project_name:
  "Values_index (prepareParams (MemoryOptions_arg options)) ''project_name''
     = map_option (\<lambda>s. [s]) (ProjectName options)"
  by (cases "ProjectName options") (simp_all add: index_simps del: add_present.simps)

lemma index_org_id:
  "Values_index (prepareParams (MemoryOptions_arg options)) ''org_id''
     = map_option (\<lambda>v. [Sprintf_v v]) (non_nil (OrgID options))"
  by (cases "OrgID options = VNil") (simp_all add: index_simps non_nil_def del: add_present.simps)

lemma index_project_id:
  "Values_index (prepareParams (MemoryOptions_arg options)) ''project_id''
     = map_option (\<lambda>v. [Sprintf_v v]) (non_nil (ProjectID options))"
  by (cases "ProjectID options = VNil") (simp_all add: index_simps non_nil_def del: add_present.simps)


lemma prepareParams_only_eight_keys:
  assumes "Values_index (prepareParams (MemoryOptions_arg options)) k \<noteq> None"
  shows "k \<in> {''user_id'', ''agent_id'', ''app_id'', ''run_id'', ''org_name'', ''project_name'',
              ''org_id'', ''project_id''}"
  using assms
  by (simp add: Values_index_add_present Values_index_Nil split: if_splits)

subsection \<open>Decimal digits read back as the number\<close>

lemma digit_value: "n < 10 \<Longrightarrow> (of_char (digits ! n) :: nat) - 48 = n"
proof -
  assume "n < 10"
  then have "n \<in> {0, 1, 2, 3, 4, 5, 6, 7, 8, 9}"
    by auto
  then show ?thesis
    by (auto simp: digits_def)
qed

lemma digits_value_snoc:
  "digits_value (s @ [ch]) = 10 * digits_value s + (of_char ch - 48)"
  by (simp add: digits_value_def)

lemma digits_value_FormatUint: "digits_value (FormatUint n) = n"
proof (induction n rule: FormatUint.induct)
  case (1 n)
  show ?case
  proof (cases "n < 10")
    case True
    then show ?thesis
      by (subst FormatUint.simps) (simp add: digits_value_def digit_value)
  next
    case False
    with 1 have "digits_value (FormatUint (n div 10)) = n div 10"
      by simp
    with False show ?thesis
      by (subst FormatUint.simps) (simp add: digits_value_snoc digit_value)
  qed
qed

lemma digits_nth: "n < 10 \<Longrightarrow> digits ! n \<in> set digits"
  by (simp add: digits_def del: set_simps)

lemma FormatUint_chars: "set (FormatUint n) \<subseteq> set digits"
proof (induction n rule: FormatUint.induct)
  case (1 n)
  show ?case
  proof (cases "n < 10")
    case True
    then show ?thesis
      using digits_nth[of n] by (subst FormatUint.simps) simp
  next
    case False
    with 1 digits_nth[of "n mod 10"] show ?thesis
      by (subst FormatUint.simps) simp
  qed
qed

lemma FormatUint_not_Nil: "FormatUint n \<noteq> []"
  by (subst FormatUint.simps) simp

lemma decimal_value_Itoa: "decimal_value (Itoa i) = i"
proof (cases "i < 0")
  case True
  then show ?thesis
    by (simp add: Itoa_def decimal_value_def digits_value_FormatUint)
next
  case False
  obtain ch rest where s: "FormatUint (nat i) = ch # rest"
    using FormatUint_not_Nil[of "nat i"] by (cases "FormatUint (nat i)") auto
  then have "ch \<in> set digits"
    using FormatUint_chars[of "nat i"] by auto
  then have "ch \<noteq> CHR ''-''"
    by (auto simp: digits_def)
  with s False digits_value_FormatUint[of "nat i"] show ?thesis
    by (simp add: Itoa_def decimal_value_def)
qed

text \<open>
  Claim C9, as stated, fails: the query parameters hold strings only, so the number 42
  and the string \<^verbatim>\<open>"42"\<close> as \<^verbatim>\<open>OrgID\<close> give the same parameters, and what is read back for
  \<^verbatim>\<open>org_id\<close> is the string.
\<close>

theorem prepareParams_numeric_id_counterexample:
  "prepareParams (MemoryOptions_arg (MemoryOptions_zero\<lparr>OrgID := VInt 42\<rparr>)) =
     prepareParams (MemoryOptions_arg (MemoryOptions_zero\<lparr>OrgID := VStr ''42''\<rparr>)) \<and>
   Values_index (prepareParams (MemoryOptions_arg (MemoryOptions_zero\<lparr>OrgID := VInt 42\<rparr>))) ''org_id''
     = Some [''42''] \<and>
   VInt 42 \<noteq> VStr ''42''"
  by (simp add: MemoryOptions_zero_def non_nil_def Values_Add_def Values_index_def Itoa_def
        FormatUint.simps digits_def)

text \<open>
  Claim C9, amended.  \<^verbatim>\<open>prepareParams\<close> encodes eight fields of a \<^verbatim>\<open>MemoryOptions\<close> and no
  other: a key that is not one of \<^verbatim>\<open>user_id\<close>, \<^verbatim>\<open>agent_id\<close>, \<^verbatim>\<open>app_id\<close>, \<^verbatim>\<open>run_id\<close>,
  \<^verbatim>\<open>org_name\<close>, \<^verbatim>\<open>project_name\<close>, \<^verbatim>\<open>org_id\<close>, \<^verbatim>\<open>project_id\<close> is absent, so the other
  fields (\<^verbatim>\<open>includes\<close>, \<^verbatim>\<open>excludes\<close>, \<^verbatim>\<open>start_date\<close>, \<^verbatim>\<open>end_date\<close>,
  \<^verbatim>\<open>custom_instructions\<close> and the rest) cannot be read back.  Each of the six string fields
  reads back as the one identical string, absent when the field is unset.  \<^verbatim>\<open>org_id\<close> and
  \<^verbatim>\<open>project_id\<close> read back as the text that \<^verbatim>\<open>%v\<close> prints for the dynamic value: the
  identical string for a string; the decimal digits, which denote the same number, for a
  Go integer; the \<^verbatim>\<open>%g\<close> form for a \<^verbatim>\<open>float64\<close>, which every number decoded from JSON
  is (exponent notation from \<^verbatim>\<open>1e+06\<close> on); the address for a pointer.
\<close>

theorem prepareParams_read_back:
  "(k \<notin> {''user_id'', ''agent_id'', ''app_id'', ''run_id'', ''org_name'', ''project_name'',
          ''org_id'', ''project_id''} \<longrightarrow>
      Values_index (prepareParams (MemoryOptions_arg options)) k = None) \<and>
   Values_index (prepareParams (MemoryOptions_arg options)) ''user_id''
     = map_option (\<lambda>s. [s]) (UserID options) \<and>
   Values_index (prepareParams (MemoryOptions_arg options)) ''agent_id''
     = map_option (\<lambda>s. [s]) (AgentID options) \<and>
   Values_index (prepareParams (MemoryOptions_arg options)) ''app_id''
     = map_option (\<lambda>s. [s]) (AppID options) \<and>
   Values_index (prepareParams (MemoryOptions_arg options)) ''run_id''
     = map_option (\<lambda>s. [s]) (RunID options) \<and>
   Values_index (prepareParams (MemoryOptions_arg options)) ''org_name''
     = map_option (\<lambda>s. [s]) (OrgName options) \<and>
   Values_index (prepareParams (MemoryOptions_arg options)) ''project_name''
     = map_option (\<lambda>s. [s]) (ProjectName options) \<and>
   Values_index (prepareParams (MemoryOptions_arg options)) ''org_id''
     = map_option (\<lambda>v. [Sprintf_v v]) (non_nil (OrgID options)) \<and>
   Values_index (prepareParams (MemoryOptions_arg options)) ''project_id''
     = map_option (\<lambda>v. [Sprintf_v v]) (non_nil (ProjectID options)) \<and>
   (OrgID options = VStr s \<longrightarrow>
      Values_index (prepareParams (MemoryOptions_arg options)) ''org_id'' = Some [s]) \<and>
   (OrgID options = VInt i \<longrightarrow>
      Values_index (prepareParams (MemoryOptions_arg options)) ''org_id'' = Some [Itoa i] \<and>
      decimal_value (Itoa i) = i) \<and>
   (OrgID options = VFloat f \<longrightarrow>
      Values_index (prepareParams (MemoryOptions_arg options)) ''org_id''
        = Some [FormatFloat_g f]) \<and>
   (OrgID options = VPointer a \<and> a \<noteq> 0 \<longrightarrow>
      Values_index (prepareParams (MemoryOptions_arg options)) ''org_id''
        = Some [''0x'' @ FormatHex a]) \<and>
   (ProjectID options = VStr s \<longrightarrow>
      Values_index (prepareParams (MemoryOptions_arg options)) ''project_id'' = Some [s]) \<and>
   (ProjectID options = VInt i \<longrightarrow>
      Values_index (prepareParams (MemoryOptions_arg options)) ''project_id'' = Some [Itoa i] \<and>
      decimal_value (Itoa i) = i) \<and>
   (ProjectID options = VFloat f \<longrightarrow>
      Values_index (prepareParams (MemoryOptions_arg options)) ''project_id''
        = Some [FormatFloat_g f]) \<and>
   (ProjectID options = VPointer a \<and> a \<noteq> 0 \<longrightarrow>
      Values_index (prepareParams (MemoryOptions_arg options)) ''project_id''
        = Some [''0x'' @ FormatHex a])"
proof -
  have absent: "k \<notin> {''user_id'', ''agent_id'', ''app_id'', ''run_id'', ''org_name'',
      ''project_name'', ''org_id'', ''project_id''} \<longrightarrow>
      Values_index (prepareParams (MemoryOptions_arg options)) k = None"
  proof (rule impI, rule ccontr)
    assume out: "k \<notin> {''user_id'', ''agent_id'', ''app_id'', ''run_id'', ''org_name'',
      ''project_name'', ''org_id'', ''project_id''}"
    assume "Values_index (prepareParams (MemoryOptions_arg options)) k \<noteq> None"
    then have "k \<in> {''user_id'', ''agent_id'', ''app_id'', ''run_id'', ''org_name'',
      ''project_name'', ''org_id'', ''project_id''}"
      by (rule prepareParams_only_eight_keys)
    with out show False
      by (rule notE)
  qed
  have org: "\<And>v. OrgID options = v \<Longrightarrow> v \<noteq> VNil \<Longrightarrow>
      Values_index (prepareParams (MemoryOptions_arg options)) ''org_id'' = Some [Sprintf_v v]"
    using index_org_id[of options] by (simp add: non_nil_def del: prepareParams.simps)
  have project: "\<And>v. ProjectID options = v \<Longrightarrow> v \<noteq> VNil \<Longrightarrow>
      Values_index (prepareParams (MemoryOptions_arg options)) ''project_id'' = Some [Sprintf_v v]"
    using index_project_id[of options] by (simp add: non_nil_def del: prepareParams.simps)
  show ?thesis
    using absent index_user_id[of options] index_agent_id[of options] index_app_id[of options]
      index_run_id[of options] index_org_name[of options] index_project_name[of options]
      index_org_id[of options] index_project_id[of options]
      org[of "VStr s"] org[of "VInt i"] org[of "VFloat f"] org[of "VPointer a"]
      project[of "VStr s"] project[of "VInt i"] project[of "VFloat f"] project[of "VPointer a"]
      decimal_value_Itoa[of i]
    by (intro conjI impI) (simp_all del: prepareParams.simps)
qed

theorem prepareParams_read_back_witness:
  "Values_index (prepareParams (MemoryOptions_arg
       (MemoryOptions_zero\<lparr>UserID := Some ''alice'', StartDate := Some ''2024-01-01'',
          OrgID := VFloat (Finite False ''1234567'' 7), ProjectID := VInt 42\<rparr>)))
     ''user_id'' = Some [''alice''] \<and>
   Values_index (prepareParams (MemoryOptions_arg
       (MemoryOptions_zero\<lparr>UserID := Some ''alice'', StartDate := Some ''2024-01-01'',
          OrgID := VFloat (Finite False ''1234567'' 7), ProjectID := VInt 42\<rparr>)))
     ''agent_id'' = None \<and>
   Values_index (prepareParams (MemoryOptions_arg
       (MemoryOptions_zero\<lparr>UserID := Some ''alice'', StartDate := Some ''2024-01-01'',
          OrgID := VFloat (Finite False ''1234567'' 7), ProjectID := VInt 42\<rparr>)))
     ''start_date'' = None \<and>
   Values_index (prepareParams (MemoryOptions_arg
       (MemoryOptions_zero\<lparr>UserID := Some ''alice'', StartDate := Some ''2024-01-01'',
          OrgID := VFloat (Finite False ''1234567'' 7), ProjectID := VInt 42\<rparr>)))
     ''org_id'' = Some [''1.234567e+06''] \<and>
   Values_index (prepareParams (MemoryOptions_arg
       (MemoryOptions_zero\<lparr>UserID := Some ''alice'', StartDate := Some ''2024-01-01'',
          OrgID := VFloat (Finite False ''1234567'' 7), ProjectID := VInt 42\<rparr>)))
     ''project_id'' = Some [''42''] \<and>
   decimal_value ''42'' = 42 \<and>
   Values_index (prepareParams (MemoryOptions_arg
       (MemoryOptions_zero\<lparr>OrgID := VStr ''org-1'', ProjectID := VPointer 0xC000012345\<rparr>)))
     ''org_id'' = Some [''org-1''] \<and>
   Values_index (prepareParams (MemoryOptions_arg
       (MemoryOptions_zero\<lparr>OrgID := VStr ''org-1'', ProjectID := VPointer 0xC000012345\<rparr>)))
     ''project_id'' = Some [''0xc000012345'']"
  using prepareParams_read_back
    [of "''start_date''"
        "MemoryOptions_zero\<lparr>UserID := Some ''alice'', StartDate := Some ''2024-01-01'',
          OrgID := VFloat (Finite False ''1234567'' 7), ProjectID := VInt 42\<rparr>"
        "''''" 42 "Finite False ''1234567'' 7" 1]
    prepareParams_read_back
    [of "''start_date''"
        "MemoryOptions_zero\<lparr>OrgID := VStr ''org-1'', ProjectID := VPointer 0xC000012345\<rparr>"
        "''org-1''" 0 NaN "0xC000012345"]
  by (simp add: MemoryOptions_zero_def non_nil_def Itoa_def FormatUint.simps digits_def
        fmtE_def fmtF_def Let_def FormatHex.simps ldigits_def)

section \<open>Properties of the transport\<close>

lemma marshals_None [simp]: "marshals e None"
  by (simp add: marshals_def)

lemma fetch_marshalled:
  "marshals e b \<Longrightarrow>
     fetchWithErrorHandling e c log m ep b =
       (let req = \<lparr>Method = m, URL = host c @ ep, Body = b\<rparr>
        in ((case roundTrip e log req of
               NewRequest_failed text \<Rightarrow>
                 Inl (Errorf_w ''failed to create request: '' (LibError text))
             | Do_failed text \<Rightarrow> Inl (Errorf_w ''request failed: '' (LibError text))
             | ReadAll_failed text \<Rightarrow>
                 Inl (Errorf_w ''failed to read response body: '' (LibError text))
             | Response statusCode respBody \<Rightarrow>
                 if statusCode < 200 \<or> statusCode \<ge> 300
                 then Inl (NewAPIError respBody statusCode respBody)
                 else (case json_Unmarshal e respBody of
                         Inl text \<Rightarrow>
                           Inl (Errorf_w ''failed to parse response JSON: '' (LibError text))
                       | Inr result \<Rightarrow> Inr result)),
            log @ [req]))"
  by (cases b) (simp_all add: marshals_def fetchWithErrorHandling_def)

lemma fetch_not_marshalled:
  "json_Marshal e p = Some t \<Longrightarrow>
     fetchWithErrorHandling e c log m ep (Some p)
       = (Inl (Errorf_w ''failed to marshal request body: '' (LibError t)), log)"
  by (simp add: fetchWithErrorHandling_def)

lemma fetch_log:
  "marshals e b \<Longrightarrow>
     snd (fetchWithErrorHandling e c log m ep b)
       = log @ [\<lparr>Method = m, URL = host c @ ep, Body = b\<rparr>]"
  by (simp add: fetch_marshalled Let_def)





lemma fetch_status:
  "roundTrip e log \<lparr>Method = m, URL = host c @ ep, Body = b\<rparr> = Response sc rb \<Longrightarrow>
   sc < 200 \<or> 300 \<le> sc \<Longrightarrow> marshals e b \<Longrightarrow>
     fst (fetchWithErrorHandling e c log m ep b) = Inl (APIError rb sc rb)"
  by (auto simp: fetch_marshalled Let_def NewAPIError_def)

lemma fetch_ok:
  "roundTrip e log \<lparr>Method = m, URL = host c @ ep, Body = b\<rparr> = Response sc rb \<Longrightarrow>
   200 \<le> sc \<Longrightarrow> sc < 300 \<Longrightarrow> json_Unmarshal e rb = Inr v \<Longrightarrow> marshals e b \<Longrightarrow>
     fst (fetchWithErrorHandling e c log m ep b) = Inr v"
  by (simp add: fetch_marshalled Let_def)


lemma fetch_error_cases:
  assumes "\<And>m ep b. fst (fetchWithErrorHandling e c log m ep b) = Inl err"
  shows "fetchWithErrorHandling e c log m ep b = (r, log') \<Longrightarrow> r = Inl err"
  using assms[of m ep b] by simp

lemma Add_returns_fetch_error:
  assumes "telemetryID c \<noteq> ''''"
      and "\<And>m ep b. fst (fetchWithErrorHandling e c log m ep b) = Inl err"
  shows "fst (Add e c log messages options) = Inl err"
  using assms(1) 
  by (auto simp: Add_def ping_if_no_telemetryID_def Let_def split: prod.splits sum.splits
      dest: fetch_error_cases[OF assms(2)])

lemma Users_returns_fetch_error:
  assumes "telemetryID c \<noteq> ''''"
      and "\<And>m ep b. fst (fetchWithErrorHandling e c log m ep b) = Inl err"
  shows "fst (Users e c log) = Inl err"
  using assms(1) 
  by (auto simp: Users_def ping_if_no_telemetryID_def Let_def split: prod.splits sum.splits
      dest: fetch_error_cases[OF assms(2)])

lemma Ping_returns_fetch_error:
  assumes "\<And>m ep b. fst (fetchWithErrorHandling e c log m ep b) = Inl err"
  shows "fst (Ping e c log) = Some (Errorf_w ''failed to ping server: '' err)"
  by (auto simp: Ping_def Let_def split: prod.splits sum.splits
      dest: fetch_error_cases[OF assms])

lemma GetAll_returns_fetch_error:
  assumes "telemetryID c \<noteq> ''''"
      and "\<And>m ep b. fst (fetchWithErrorHandling e c log m ep b) = Inl err"
  shows "fst (GetAll e c log options) = Inl err"
  using assms(1)
  by (auto simp: GetAll_def ping_if_no_telemetryID_def Let_def split: prod.splits sum.splits
      dest: fetch_error_cases[OF assms(2)])

lemma fetch_succeeds:
  "call_succeeds e log \<lparr>Method = m, URL = host c @ ep, Body = b\<rparr> \<Longrightarrow> marshals e b \<Longrightarrow>
     \<exists>v. fetchWithErrorHandling e c log m ep b
           = (Inr v, log @ [\<lparr>Method = m, URL = host c @ ep, Body = b\<rparr>])"
  by (auto simp: call_succeeds_def fetch_marshalled Let_def
           split: http_outcome.splits sum.splits)

lemma fetch_fails:
  "\<not> call_succeeds e log \<lparr>Method = m, URL = host c @ ep, Body = b\<rparr> \<Longrightarrow> marshals e b \<Longrightarrow>
     \<exists>err. fetchWithErrorHandling e c log m ep b
           = (Inl err, log @ [\<lparr>Method = m, URL = host c @ ep, Body = b\<rparr>])"
  by (auto simp: call_succeeds_def fetch_marshalled Let_def
           split: http_outcome.splits sum.splits)

lemma delete_each_succeeds:
  "calls_succeed e log (map (delete_call c ro) es) \<Longrightarrow>
     delete_each e c log ro es = (None, log @ map (delete_call c ro) es)"
proof (induction es arbitrary: log)
  case Nil
  then show ?case by simp
next
  case (Cons x xs)
  from Cons.prems have ok: "call_succeeds e log (delete_call c ro x)"
    and rest: "calls_succeed e (log @ [delete_call c ro x]) (map (delete_call c ro) xs)"
    by simp_all
  from ok obtain v where
    "fetchWithErrorHandling e c log ''DELETE'' (entity_endpoint ro x) None
       = (Inr v, log @ [delete_call c ro x])"
    using fetch_succeeds[of e log "''DELETE''" c "entity_endpoint ro x" None]
    by (auto simp: delete_call_def)
  with Cons.IH[OF rest] show ?case
    by simp
qed

lemma delete_each_first_failure:
  "calls_succeed e log (map (delete_call c ro) done) \<Longrightarrow>
   \<not> call_succeeds e (log @ map (delete_call c ro) done) (delete_call c ro x) \<Longrightarrow>
     \<exists>inner. delete_each e c log ro (done @ x # rest)
        = (Some (APIError (''Failed to delete '' @ fst x @ '' '' @ snd x @ '': '' @ Error inner)
                   0 ''''),
           log @ map (delete_call c ro) (done @ [x]))"
proof (induction "done" arbitrary: log)
  case Nil
  then obtain err where
    "fetchWithErrorHandling e c log ''DELETE'' (entity_endpoint ro x) None
       = (Inl err, log @ [delete_call c ro x])"
    using fetch_fails[of e log "''DELETE''" c "entity_endpoint ro x" None]
    by (auto simp: delete_call_def)
  then show ?case
    by (auto simp: NewAPIError_def)
next
  case (Cons y ys)
  from Cons.prems have ok: "call_succeeds e log (delete_call c ro y)"
    and rest: "calls_succeed e (log @ [delete_call c ro y]) (map (delete_call c ro) ys)"
    and bad: "\<not> call_succeeds e ((log @ [delete_call c ro y]) @ map (delete_call c ro) ys)
                 (delete_call c ro x)"
    by simp_all
  from ok obtain v where
    "fetchWithErrorHandling e c log ''DELETE'' (entity_endpoint ro y) None
       = (Inr v, log @ [delete_call c ro y])"
    using fetch_succeeds[of e log "''DELETE''" c "entity_endpoint ro y" None]
    by (auto simp: delete_call_def)
  with Cons.IH[OF rest bad] show ?case
    by simp
qed

lemma delete_each_one_call:
  "\<exists>r. delete_each e c log ro [x] = (r, log @ [delete_call c ro x])"
proof (cases "call_succeeds e log (delete_call c ro x)")
  case True
  then have "calls_succeed e log (map (delete_call c ro) [x])"
    by simp
  from delete_each_succeeds[OF this] show ?thesis
    by simp
next
  case False
  then have "\<not> call_succeeds e (log @ map (delete_call c ro) []) (delete_call c ro x)"
    by simp
  from delete_each_first_failure[of e log c ro "[]", OF _ this, of "[]"] show ?thesis
    by auto
qed

section \<open>Properties of the ping\<close>

lemma Ping_log:
  "Ping e c log = (r, c', log') \<Longrightarrow>
     log' = log @ [\<lparr>Method = ''GET'', URL = host c @ ''/v1/ping/'', Body = None\<rparr>]"
  by (auto simp: Ping_def Let_def fetchWithErrorHandling_def
           split: prod.splits sum.splits any.splits if_splits)

lemma Ping_client:
  assumes "Ping e c log = (r, c', log')"
  shows "host c' = host c"
    and "organizationName c' = organizationName c"
    and "projectName c' = projectName c"
    and "organizationID c \<noteq> VNil \<Longrightarrow> organizationID c' = organizationID c"
    and "projectID c \<noteq> VNil \<Longrightarrow> projectID c' = projectID c"
  using assms
  by (auto simp: Ping_def Let_def split: prod.splits sum.splits any.splits if_splits option.splits)

lemma ping_if_log:
  assumes "ping_if_no_telemetryID e c log = (r, c', log')"
  shows "\<exists>calls. log' = log @ calls \<and> (\<forall>req \<in> set calls. Method req = ''GET'')"
proof (cases "telemetryID c = ''''")
  case True
  with assms have "Ping e c log = (r, c', log')"
    by (simp add: ping_if_no_telemetryID_def)
  from Ping_log[OF this] show ?thesis
    by simp
next
  case False
  with assms show ?thesis
    by (simp add: ping_if_no_telemetryID_def)
qed

lemma ping_if_client:
  assumes "ping_if_no_telemetryID e c log = (r, c', log')"
  shows "host c' = host c"
    and "organizationName c' = organizationName c"
    and "projectName c' = projectName c"
    and "organizationID c \<noteq> VNil \<Longrightarrow> organizationID c' = organizationID c"
    and "projectID c \<noteq> VNil \<Longrightarrow> projectID c' = projectID c"
  using assms Ping_client[of e c log r c' log']
  by (auto simp: ping_if_no_telemetryID_def split: if_splits)

lemma Users_log:
  assumes "Users e c log = (r, c', log')"
  shows "\<exists>calls. log' = log @ calls \<and> (\<forall>req \<in> set calls. Method req = ''GET'')"
proof -
  obtain r1 c1 log1 where p: "ping_if_no_telemetryID e c log = (r1, c1, log1)"
    by (cases "ping_if_no_telemetryID e c log") auto
  from ping_if_log[OF p] obtain calls where
    calls: "log1 = log @ calls" "\<forall>req \<in> set calls. Method req = ''GET''"
    by blast
  show ?thesis
  proof (cases r1)
    case (Some err)
    with p assms calls show ?thesis
      by (auto simp: Users_def)
  next
    case None
    let ?ep = "''/v1/entities/?'' @ Encode (prepareParams (MemoryOptions_arg (set_org_project c1 MemoryOptions_zero)))"
    have "snd (fetchWithErrorHandling e c1 log1 ''GET'' ?ep None)
            = log1 @ [\<lparr>Method = ''GET'', URL = host c1 @ ?ep, Body = None\<rparr>]"
      by (rule fetch_log) simp
    with None p assms have "log' = log1 @ [\<lparr>Method = ''GET'', URL = host c1 @ ?ep, Body = None\<rparr>]"
      by (auto simp: Users_def Let_def split: prod.splits sum.splits)
    with calls show ?thesis
      by auto
  qed
qed

section \<open>Properties of DeleteUsers\<close>

lemma DELETE_calls_after_append:
  assumes "\<forall>req \<in> set gets. Method req = ''GET''"
  shows "DELETE_calls_after (length log) ((log @ gets) @ map (delete_call c ro) es) = length es"
proof -
  have "filter (\<lambda>req. Method req = ''DELETE'') gets = []"
    using assms by (auto simp: filter_empty_conv)
  moreover have "filter (\<lambda>req. Method req = ''DELETE'') (map (delete_call c ro) es)
      = map (delete_call c ro) es"
    by (induction es) (simp_all add: delete_call_def)
  ultimately show ?thesis
    by (simp add: DELETE_calls_after_def)
qed

lemma DeleteUsers_all:
  assumes "ping_if_no_telemetryID e c log = (None, c1, log1)"
      and "(case params of [] \<Rightarrow> DeleteUsersParams_zero | p # x \<Rightarrow> p) = dp"
      and "DeleteUsersParams.UserID dp = None" "DeleteUsersParams.AgentID dp = None"
      and "DeleteUsersParams.AppID dp = None" "DeleteUsersParams.RunID dp = None"
      and "Users e c1 log1 = (Inr entities, c2, log2)"
  shows "DeleteUsers e c log params
           = delete_resolved e c2 log2 dp (map (\<lambda>entity. (Type entity, Name entity)) (Results entities))"
  using assms by (simp add: DeleteUsers_def)

lemma DeleteUsers_user:
  assumes "ping_if_no_telemetryID e c log = (None, c1, log1)"
      and "(case params of [] \<Rightarrow> DeleteUsersParams_zero | p # x \<Rightarrow> p) = dp"
      and "DeleteUsersParams.UserID dp = Some u"
  shows "DeleteUsers e c log params = delete_resolved e c1 log1 dp [(''user'', u)]"
  using assms by (simp add: DeleteUsers_def)

lemma DeleteUsers_agent:
  assumes "ping_if_no_telemetryID e c log = (None, c1, log1)"
      and "(case params of [] \<Rightarrow> DeleteUsersParams_zero | p # x \<Rightarrow> p) = dp"
      and "DeleteUsersParams.UserID dp = None" "DeleteUsersParams.AgentID dp = Some a"
  shows "DeleteUsers e c log params = delete_resolved e c1 log1 dp [(''agent'', a)]"
  using assms by (simp add: DeleteUsers_def)

lemma DeleteUsers_app:
  assumes "ping_if_no_telemetryID e c log = (None, c1, log1)"
      and "(case params of [] \<Rightarrow> DeleteUsersParams_zero | p # x \<Rightarrow> p) = dp"
      and "DeleteUsersParams.UserID dp = None" "DeleteUsersParams.AgentID dp = None"
      and "DeleteUsersParams.AppID dp = Some a"
  shows "DeleteUsers e c log params = delete_resolved e c1 log1 dp [(''app'', a)]"
  using assms by (simp add: DeleteUsers_def)

lemma DeleteUsers_run:
  assumes "ping_if_no_telemetryID e c log = (None, c1, log1)"
      and "(case params of [] \<Rightarrow> DeleteUsersParams_zero | p # x \<Rightarrow> p) = dp"
      and "DeleteUsersParams.UserID dp = None" "DeleteUsersParams.AgentID dp = None"
      and "DeleteUsersParams.AppID dp = None" "DeleteUsersParams.RunID dp = Some a"
  shows "DeleteUsers e c log params = delete_resolved e c1 log1 dp [(''run'', a)]"
  using assms by (simp add: DeleteUsers_def)

lemma delete_resolved_one_call:
  "\<exists>r. delete_resolved e c log dp [x]
        = (r, c, log @ [delete_call c (set_org_project c MemoryOptions_zero) x])"
proof -
  obtain r where "delete_each e c log (set_org_project c MemoryOptions_zero) [x]
      = (r, log @ [delete_call c (set_org_project c MemoryOptions_zero) x])"
    using delete_each_one_call by blast
  then show ?thesis
    by (cases r) (simp_all add: delete_resolved_def Let_def)
qed

lemma delete_resolved_succeeds:
  assumes "es \<noteq> []"
      and "calls_succeed e log (map (delete_call c (set_org_project c MemoryOptions_zero)) es)"
  shows "delete_resolved e c log dp es =
           (Inr \<lparr>Message =
                  (if DeleteUsersParams.UserID dp \<noteq> None \<or> DeleteUsersParams.AgentID dp \<noteq> None
                      \<or> DeleteUsersParams.AppID dp \<noteq> None \<or> DeleteUsersParams.RunID dp \<noteq> None
                   then ''Entity deleted successfully.''
                   else ''All users, agents, apps and runs deleted.'')\<rparr>,
            c, log @ map (delete_call c (set_org_project c MemoryOptions_zero)) es)"
  using assms delete_each_succeeds[OF assms(2)]
  by (simp add: delete_resolved_def Let_def)

lemma delete_resolved_first_failure:
  assumes "calls_succeed e log (map (delete_call c (set_org_project c MemoryOptions_zero)) done)"
      and "\<not> call_succeeds e (log @ map (delete_call c (set_org_project c MemoryOptions_zero)) done)
             (delete_call c (set_org_project c MemoryOptions_zero) x)"
  shows "\<exists>inner. delete_resolved e c log dp (done @ x # rest) =
           (Inl (APIError (''Failed to delete '' @ fst x @ '' '' @ snd x @ '': '' @ Error inner)
                   0 ''''),
            c, log @ map (delete_call c (set_org_project c MemoryOptions_zero)) (done @ [x]))"
proof -
  from delete_each_first_failure[OF assms, of rest] obtain inner where
    "delete_each e c log (set_org_project c MemoryOptions_zero) (done @ x # rest)
        = (Some (APIError (''Failed to delete '' @ fst x @ '' '' @ snd x @ '': '' @ Error inner)
                   0 ''''),
           log @ map (delete_call c (set_org_project c MemoryOptions_zero)) (done @ [x]))"
    by blast
  then show ?thesis
    by (auto simp: delete_resolved_def Let_def)
qed

lemma delete_resolved_empty:
  "delete_resolved e c log dp [] = (Inl (Errorf ''no entities to delete''), c, log)"
  by (simp add: delete_resolved_def)

text \<open>
  Claim C7.  Called with no filter when the listing returns N entities (N at least 1) and
  each call succeeds, \<^verbatim>\<open>DeleteUsers\<close> makes exactly N \<^verbatim>\<open>DELETE\<close> calls, one for each entity
  in the order of the listing, and returns ``All users, agents, apps and runs deleted.''.
  Called with a user id, it makes exactly one \<^verbatim>\<open>DELETE\<close> call and returns ``Entity deleted
  successfully.''.  When the call for an entity is the first that fails, no call is made
  for the entities after it, and the result is an API error whose message names the type
  and the name of that entity.
\<close>

theorem DeleteUsers_one_call_per_entity:
  assumes "ping_if_no_telemetryID e c log = (None, c1, log1)"
      and "(case params of [] \<Rightarrow> DeleteUsersParams_zero | p # ps \<Rightarrow> p) = dp"
  shows
    "(DeleteUsersParams.UserID dp = None \<and> DeleteUsersParams.AgentID dp = None \<and>
      DeleteUsersParams.AppID dp = None \<and> DeleteUsersParams.RunID dp = None \<and>
      Users e c1 log1 = (Inr entities, c2, log2) \<and> Results entities \<noteq> [] \<and>
      calls_succeed e log2 (map (entity_call c2) (entities_of entities)) \<longrightarrow>
        DeleteUsers e c log params =
          (Inr \<lparr>Message = ''All users, agents, apps and runs deleted.''\<rparr>, c2,
           log2 @ map (entity_call c2) (entities_of entities)) \<and>
        DELETE_calls_after (length log) (log2 @ map (entity_call c2) (entities_of entities))
          = length (Results entities)) \<and>
     (DeleteUsersParams.UserID dp = Some u \<and>
      call_succeeds e log1 (entity_call c1 (''user'', u)) \<longrightarrow>
        DeleteUsers e c log params =
          (Inr \<lparr>Message = ''Entity deleted successfully.''\<rparr>, c1,
           log1 @ [entity_call c1 (''user'', u)]) \<and>
        DELETE_calls_after (length log) (log1 @ [entity_call c1 (''user'', u)]) = 1) \<and>
     (DeleteUsersParams.UserID dp = None \<and> DeleteUsersParams.AgentID dp = None \<and>
      DeleteUsersParams.AppID dp = None \<and> DeleteUsersParams.RunID dp = None \<and>
      Users e c1 log1 = (Inr entities, c2, log2) \<and> entities_of entities = done @ x # rest \<and>
      calls_succeed e log2 (map (entity_call c2) done) \<and>
      \<not> call_succeeds e (log2 @ map (entity_call c2) done) (entity_call c2 x) \<longrightarrow>
        (\<exists>inner. DeleteUsers e c log params =
           (Inl (APIError (''Failed to delete '' @ fst x @ '' '' @ snd x @ '': '' @ Error inner)
                   0 ''''),
            c2, log2 @ map (entity_call c2) (done @ [x]))) \<and>
        DELETE_calls_after (length log) (log2 @ map (entity_call c2) (done @ [x]))
          = length done + 1) \<and>
     (DeleteUsersParams.UserID dp = Some u \<and>
      \<not> call_succeeds e log1 (entity_call c1 (''user'', u)) \<longrightarrow>
        (\<exists>inner. DeleteUsers e c log params =
           (Inl (APIError (''Failed to delete user '' @ u @ '': '' @ Error inner) 0 ''''),
            c1, log1 @ [entity_call c1 (''user'', u)])))"
proof (intro conjI impI)
  from ping_if_log[OF assms(1)] obtain g1 where
    g1: "log1 = log @ g1" "\<forall>req \<in> set g1. Method req = ''GET''"
    by blast
  {
    assume h: "DeleteUsersParams.UserID dp = None \<and> DeleteUsersParams.AgentID dp = None \<and>
      DeleteUsersParams.AppID dp = None \<and> DeleteUsersParams.RunID dp = None \<and>
      Users e c1 log1 = (Inr entities, c2, log2) \<and> Results entities \<noteq> [] \<and>
      calls_succeed e log2 (map (entity_call c2) (entities_of entities))"
    then have ne: "entities_of entities \<noteq> []"
      by (simp add: entities_of_def)
    from h have "DeleteUsers e c log params = delete_resolved e c2 log2 dp (entities_of entities)"
      using DeleteUsers_all[OF assms] by (simp add: entities_of_def)
    also have "\<dots> = (Inr \<lparr>Message = ''All users, agents, apps and runs deleted.''\<rparr>, c2,
        log2 @ map (entity_call c2) (entities_of entities))"
      using h delete_resolved_succeeds[OF ne, of e log2 c2 dp]
      by (simp add: entity_call_def[abs_def])
    finally show "DeleteUsers e c log params =
          (Inr \<lparr>Message = ''All users, agents, apps and runs deleted.''\<rparr>, c2,
           log2 @ map (entity_call c2) (entities_of entities))" .
    from h Users_log[of e c1 log1 "Inr entities" c2 log2] obtain g2 where
      g2: "log2 = log1 @ g2" "\<forall>req \<in> set g2. Method req = ''GET''"
      by blast
    have "DELETE_calls_after (length log)
            ((log @ (g1 @ g2)) @ map (delete_call c2 (set_org_project c2 MemoryOptions_zero))
               (entities_of entities))
          = length (entities_of entities)"
      using g1 g2 by (intro DELETE_calls_after_append) auto
    with g1 g2 show "DELETE_calls_after (length log)
        (log2 @ map (entity_call c2) (entities_of entities)) = length (Results entities)"
      by (simp add: entity_call_def[abs_def] entities_of_def)
  }
  {
    assume h: "DeleteUsersParams.UserID dp = Some u \<and>
      call_succeeds e log1 (entity_call c1 (''user'', u))"
    then have "DeleteUsers e c log params = delete_resolved e c1 log1 dp [(''user'', u)]"
      using DeleteUsers_user[OF assms] by simp
    also have "\<dots> = (Inr \<lparr>Message = ''Entity deleted successfully.''\<rparr>, c1,
        log1 @ [entity_call c1 (''user'', u)])"
      using h delete_resolved_succeeds[of "[(''user'', u)]" e log1 c1 dp]
      by (simp add: entity_call_def[abs_def])
    finally show "DeleteUsers e c log params =
          (Inr \<lparr>Message = ''Entity deleted successfully.''\<rparr>, c1,
           log1 @ [entity_call c1 (''user'', u)])" .
    have "DELETE_calls_after (length log)
            ((log @ g1) @ map (delete_call c1 (set_org_project c1 MemoryOptions_zero)) [(''user'', u)])
          = length [(''user'', u)]"
      using g1 by (intro DELETE_calls_after_append) auto
    with g1 show "DELETE_calls_after (length log) (log1 @ [entity_call c1 (''user'', u)]) = 1"
      by (simp add: entity_call_def)
  }
  {
    assume h: "DeleteUsersParams.UserID dp = None \<and> DeleteUsersParams.AgentID dp = None \<and>
      DeleteUsersParams.AppID dp = None \<and> DeleteUsersParams.RunID dp = None \<and>
      Users e c1 log1 = (Inr entities, c2, log2) \<and> entities_of entities = done @ x # rest \<and>
      calls_succeed e log2 (map (entity_call c2) done) \<and>
      \<not> call_succeeds e (log2 @ map (entity_call c2) done) (entity_call c2 x)"
    then have "DeleteUsers e c log params = delete_resolved e c2 log2 dp (done @ x # rest)"
      using DeleteUsers_all[OF assms] by (simp add: entities_of_def)
    then show "\<exists>inner. DeleteUsers e c log params =
           (Inl (APIError (''Failed to delete '' @ fst x @ '' '' @ snd x @ '': '' @ Error inner)
                   0 ''''),
            c2, log2 @ map (entity_call c2) (done @ [x]))"
      using h delete_resolved_first_failure[of e log2 c2 "done" x dp rest]
      by (simp add: entity_call_def[abs_def])
    from h Users_log[of e c1 log1 "Inr entities" c2 log2] obtain g2 where
      g2: "log2 = log1 @ g2" "\<forall>req \<in> set g2. Method req = ''GET''"
      by blast
    have "DELETE_calls_after (length log)
            ((log @ (g1 @ g2)) @ map (delete_call c2 (set_org_project c2 MemoryOptions_zero))
               (done @ [x]))
          = length (done @ [x])"
      using g1 g2 by (intro DELETE_calls_after_append) auto
    with g1 g2 show "DELETE_calls_after (length log)
        (log2 @ map (entity_call c2) (done @ [x])) = length done + 1"
      by (simp add: entity_call_def[abs_def])
  }
  {
    assume h: "DeleteUsersParams.UserID dp = Some u \<and>
      \<not> call_succeeds e log1 (entity_call c1 (''user'', u))"
    then have "DeleteUsers e c log params = delete_resolved e c1 log1 dp ([] @ (''user'', u) # [])"
      using DeleteUsers_user[OF assms] by simp
    then show "\<exists>inner. DeleteUsers e c log params =
           (Inl (APIError (''Failed to delete user '' @ u @ '': '' @ Error inner) 0 ''''),
            c1, log1 @ [entity_call c1 (''user'', u)])"
      using h delete_resolved_first_failure[of e log1 c1 "[]" "(''user'', u)" dp "[]"]
      by (simp add: entity_call_def[abs_def])
  }
qed

lemma DELETE_calls_after_one:
  assumes "ping_if_no_telemetryID e c log = (r, c1, log1)"
  shows "DELETE_calls_after (length log) (log1 @ [entity_call c1 x]) = 1"
proof -
  from ping_if_log[OF assms] obtain g1 where
    g1: "log1 = log @ g1" "\<forall>req \<in> set g1. Method req = ''GET''"
    by blast
  have "DELETE_calls_after (length log)
          ((log @ g1) @ map (delete_call c1 (set_org_project c1 MemoryOptions_zero)) [x])
        = length [x]"
    using g1 by (intro DELETE_calls_after_append) auto
  with g1 show ?thesis
    by (simp add: entity_call_def)
qed

text \<open>
  Claim C10.  When at least one of \<^verbatim>\<open>UserID\<close>, \<^verbatim>\<open>AgentID\<close>, \<^verbatim>\<open>AppID\<close>, \<^verbatim>\<open>RunID\<close> is set, and so
  when several are, \<^verbatim>\<open>DeleteUsers\<close> targets one entity: the user if \<^verbatim>\<open>UserID\<close> is set, else
  the agent if \<^verbatim>\<open>AgentID\<close> is set, else the app if \<^verbatim>\<open>AppID\<close> is set, else the run; the other
  fields are not read, and exactly one \<^verbatim>\<open>DELETE\<close> call is made, for that entity.
\<close>

theorem DeleteUsers_targets_by_priority:
  assumes "ping_if_no_telemetryID e c log = (None, c1, log1)"
      and "(case params of [] \<Rightarrow> DeleteUsersParams_zero | p # ps \<Rightarrow> p) = dp"
  shows
    "(DeleteUsersParams.UserID dp = Some u \<longrightarrow>
        snd (DeleteUsers e c log params) = (c1, log1 @ [entity_call c1 (''user'', u)]) \<and>
        DELETE_calls_after (length log) (snd (snd (DeleteUsers e c log params))) = 1) \<and>
     (DeleteUsersParams.UserID dp = None \<and> DeleteUsersParams.AgentID dp = Some a \<longrightarrow>
        snd (DeleteUsers e c log params) = (c1, log1 @ [entity_call c1 (''agent'', a)]) \<and>
        DELETE_calls_after (length log) (snd (snd (DeleteUsers e c log params))) = 1) \<and>
     (DeleteUsersParams.UserID dp = None \<and> DeleteUsersParams.AgentID dp = None \<and>
      DeleteUsersParams.AppID dp = Some a \<longrightarrow>
        snd (DeleteUsers e c log params) = (c1, log1 @ [entity_call c1 (''app'', a)]) \<and>
        DELETE_calls_after (length log) (snd (snd (DeleteUsers e c log params))) = 1) \<and>
     (DeleteUsersParams.UserID dp = None \<and> DeleteUsersParams.AgentID dp = None \<and>
      DeleteUsersParams.AppID dp = None \<and> DeleteUsersParams.RunID dp = Some a \<longrightarrow>
        snd (DeleteUsers e c log params) = (c1, log1 @ [entity_call c1 (''run'', a)]) \<and>
        DELETE_calls_after (length log) (snd (snd (DeleteUsers e c log params))) = 1)"
proof -
  have one: "\<And>x. DeleteUsers e c log params = delete_resolved e c1 log1 dp [x] \<Longrightarrow>
      snd (DeleteUsers e c log params) = (c1, log1 @ [entity_call c1 x]) \<and>
      DELETE_calls_after (length log) (snd (snd (DeleteUsers e c log params))) = 1"
  proof -
    fix x
    assume eq: "DeleteUsers e c log params = delete_resolved e c1 log1 dp [x]"
    obtain r where "delete_resolved e c1 log1 dp [x] = (r, c1, log1 @ [entity_call c1 x])"
      using delete_resolved_one_call[of e c1 log1 dp x] by (auto simp: entity_call_def)
    with eq DELETE_calls_after_one[OF assms(1), of x]
    show "snd (DeleteUsers e c log params) = (c1, log1 @ [entity_call c1 x]) \<and>
      DELETE_calls_after (length log) (snd (snd (DeleteUsers e c log params))) = 1"
      by simp
  qed
  show ?thesis
    using one DeleteUsers_user[OF assms] DeleteUsers_agent[OF assms] DeleteUsers_app[OF assms]
      DeleteUsers_run[OF assms]
    by blast
qed

text \<open>
  Claim C8, as stated, fails: with no filter and an empty listing the error is the plain
  error of \<^verbatim>\<open>fmt.Errorf("no entities to delete")\<close>, not a validation error.
\<close>

theorem DeleteUsers_empty_counterexample:
  "DeleteUsers (example_env (example_server ''{\"results\":[]}'' '''' 200))
      (example_client ''a@b.io'') [] []
     = (Inl (Errorf ''no entities to delete''), example_client ''a@b.io'',
        [\<lparr>Method = ''GET'', URL = ''https://api.mem0.ai/v1/entities/?'', Body = None\<rparr>]) \<and>
   \<not> is_ValidationError (Errorf ''no entities to delete'')"
  by (simp add: DeleteUsers_def ping_if_no_telemetryID_def example_client_def
        DeleteUsersParams_zero_def Users_def Let_def set_org_project_def MemoryOptions_zero_def
        non_nil_def Encode_def Encode_items_def fetchWithErrorHandling_def example_env_def
        example_server_def example_Unmarshal_def parseResponse_def example_decode_AllUsers_def
        delete_resolved_def)

text \<open>
  Claim C8, amended.  With no filter and an empty listing \<^verbatim>\<open>DeleteUsers\<close> fails with the
  plain error ``no entities to delete'', which is neither a validation error nor an API
  error; it is returned right after the listing, before any \<^verbatim>\<open>DELETE\<close> call.
\<close>

theorem DeleteUsers_empty_target_set:
  assumes "ping_if_no_telemetryID e c log = (None, c1, log1)"
      and "(case params of [] \<Rightarrow> DeleteUsersParams_zero | p # ps \<Rightarrow> p) = dp"
      and "DeleteUsersParams.UserID dp = None" and "DeleteUsersParams.AgentID dp = None"
      and "DeleteUsersParams.AppID dp = None" and "DeleteUsersParams.RunID dp = None"
      and "Users e c1 log1 = (Inr entities, c2, log2)"
      and "Results entities = []"
  shows "DeleteUsers e c log params = (Inl (Errorf ''no entities to delete''), c2, log2) \<and>
         \<not> is_ValidationError (Errorf ''no entities to delete'') \<and>
         \<not> is_APIError (Errorf ''no entities to delete'') \<and>
         DELETE_calls_after (length log) log2 = 0"
proof -
  from ping_if_log[OF assms(1)] obtain g1 where
    g1: "log1 = log @ g1" "\<forall>req \<in> set g1. Method req = ''GET''"
    by blast
  from Users_log[OF assms(7)] obtain g2 where
    g2: "log2 = log1 @ g2" "\<forall>req \<in> set g2. Method req = ''GET''"
    by blast
  have "DELETE_calls_after (length log)
          ((log @ (g1 @ g2)) @ map (delete_call c2 MemoryOptions_zero) []) = length ([] :: entity list)"
    using g1 g2 by (intro DELETE_calls_after_append) auto
  with g1 g2 have "DELETE_calls_after (length log) log2 = 0"
    by simp
  moreover have "DeleteUsers e c log params = (Inl (Errorf ''no entities to delete''), c2, log2)"
    using DeleteUsers_all[OF assms(1-7)] assms(8) by (simp add: delete_resolved_empty)
  ultimately show ?thesis
    by simp
qed

section \<open>The operations on the example environments\<close>

lemmas example_defs =
  example_env_def example_server_def example_Unmarshal_def example_decode_AllUsers_def
  example_User_def example_string_field_def example_client_def example_listing_def
  example_entities_def example_ping_call_def example_list_call_def example_delete_call_def
  example_params_def example_unreachable_def example_decode_Memories_def

lemma Encode_no_params:
  "organizationName c = None \<Longrightarrow> organizationID c = VNil \<Longrightarrow>
     Encode (prepareParams (MemoryOptions_arg (set_org_project c MemoryOptions_zero))) = []"
  by (simp add: set_org_project_def MemoryOptions_zero_def non_nil_def Encode_def
        Encode_items_def Let_def)

lemma example_entity_call:
  "entity_call (example_client t) (ty, name)
     = example_delete_call (ty @ ''/'' @ name @ ''/'')"
  by (simp add: entity_call_def delete_call_def entity_endpoint_def Let_def Encode_no_params
        example_delete_call_def example_client_def del: prepareParams.simps)

lemma example_ping:
  "ping_if_no_telemetryID (example_env (example_server body failing status)) (example_client '''') []
     = (None, example_client ''a@b.io'', [example_ping_call])"
  by (simp add: ping_if_no_telemetryID_def Ping_def fetchWithErrorHandling_def Let_def
        example_defs)

lemma example_no_ping:
  "ping_if_no_telemetryID e (example_client ''a@b.io'') log = (None, example_client ''a@b.io'', log)"
  by (simp add: ping_if_no_telemetryID_def example_client_def)

lemma example_Users:
  "Users (example_env (example_server example_listing failing status)) (example_client ''a@b.io'') log
     = (Inr example_entities, example_client ''a@b.io'', log @ [example_list_call])"
  apply (simp add: Users_def example_no_ping del: prepareParams.simps)
  apply (simp add: Let_def Encode_no_params fetchWithErrorHandling_def
        parseResponse_def example_defs del: prepareParams.simps)
  done

lemma example_Users_none:
  "Users (example_env (example_server ''{\"results\":[]}'' failing status)) (example_client ''a@b.io'') log
     = (Inr \<lparr>Count = 0, Results = [], Next = VNil, Previous = VNil\<rparr>,
        example_client ''a@b.io'', log @ [example_list_call])"
  apply (simp add: Users_def example_no_ping del: prepareParams.simps)
  apply (simp add: Let_def Encode_no_params fetchWithErrorHandling_def
        parseResponse_def example_defs del: prepareParams.simps)
  done

lemma example_entities_of:
  "entities_of example_entities = [(''user'', ''al''), (''agent'', ''bot'')]"
  by (simp add: entities_of_def example_entities_def)

lemma example_delete_succeeds:
  "URL (example_delete_call path) \<noteq> failing \<Longrightarrow>
     call_succeeds (example_env (example_server body failing status)) log (example_delete_call path)"
  by (simp add: call_succeeds_def example_defs)

lemma example_delete_fails:
  "status = 401 \<or> status = 500 \<Longrightarrow>
     \<not> call_succeeds (example_env (example_server body (URL (example_delete_call path)) status)) log
          (example_delete_call path)"
  by (auto simp: call_succeeds_def example_defs)

theorem DeleteUsers_empty_target_set_witness:
  "DeleteUsers (example_env (example_server ''{\"results\":[]}'' '''' 200))
      (example_client '''') [] []
     = (Inl (Errorf ''no entities to delete''), example_client ''a@b.io'',
        [example_ping_call, example_list_call]) \<and>
   DELETE_calls_after 0 [example_ping_call, example_list_call] = 0"
  using DeleteUsers_empty_target_set
    [of "example_env (example_server ''{\"results\":[]}'' '''' 200)" "example_client ''''" "[]"
        "example_client ''a@b.io''" "[example_ping_call]" "[]" DeleteUsersParams_zero
        "\<lparr>Count = 0, Results = [], Next = VNil, Previous = VNil\<rparr>"
        "example_client ''a@b.io''" "[example_ping_call, example_list_call]"]
  by (simp add: example_ping example_Users_none DeleteUsersParams_zero_def)

lemma example_delete_ok:
  "call_succeeds (example_env (example_server body [] status)) log (example_delete_call path)"
  by (simp add: call_succeeds_def example_defs)

lemma example_first_fails:
  "\<not> call_succeeds
       (example_env (example_server body (URL (example_delete_call ''user/al/'')) 500)) log
       (example_delete_call ''user/al/'')"
  by (rule example_delete_fails) simp

theorem DeleteUsers_one_call_per_entity_witness:
  "DeleteUsers (example_env (example_server example_listing '''' 200)) (example_client '''') [] []
     = (Inr \<lparr>Message = ''All users, agents, apps and runs deleted.''\<rparr>, example_client ''a@b.io'',
        [example_ping_call, example_list_call, example_delete_call ''user/al/'',
         example_delete_call ''agent/bot/'']) \<and>
   DELETE_calls_after 0
     [example_ping_call, example_list_call, example_delete_call ''user/al/'',
      example_delete_call ''agent/bot/''] = 2 \<and>
   DeleteUsers (example_env (example_server example_listing '''' 200)) (example_client '''') []
       [example_params (Some ''al'') None]
     = (Inr \<lparr>Message = ''Entity deleted successfully.''\<rparr>, example_client ''a@b.io'',
        [example_ping_call, example_delete_call ''user/al/'']) \<and>
   DELETE_calls_after 0 [example_ping_call, example_delete_call ''user/al/''] = 1 \<and>
   (\<exists>inner.
      DeleteUsers
        (example_env (example_server example_listing (URL (example_delete_call ''user/al/'')) 500))
        (example_client '''') [] []
      = (Inl (APIError (''Failed to delete user al: '' @ Error inner) 0 ''''),
         example_client ''a@b.io'',
         [example_ping_call, example_list_call, example_delete_call ''user/al/''])) \<and>
   (\<exists>inner.
      DeleteUsers
        (example_env (example_server example_listing (URL (example_delete_call ''user/al/'')) 500))
        (example_client '''') [] [example_params (Some ''al'') None]
      = (Inl (APIError (''Failed to delete user al: '' @ Error inner) 0 ''''),
         example_client ''a@b.io'', [example_ping_call, example_delete_call ''user/al/'']))"
proof -
  let ?ok = "example_env (example_server example_listing '''' 200)"
  let ?bad = "example_env (example_server example_listing (URL (example_delete_call ''user/al/'')) 500)"
  have none: "(case [] of [] \<Rightarrow> DeleteUsersParams_zero | p # ps \<Rightarrow> p) = DeleteUsersParams_zero"
    by simp
  have user: "(case [example_params (Some ''al'') None] of [] \<Rightarrow> DeleteUsersParams_zero | p # ps \<Rightarrow> p)
      = example_params (Some ''al'') None"
    by simp
  have ping_ok: "ping_if_no_telemetryID ?ok (example_client '''') []
      = (None, example_client ''a@b.io'', [example_ping_call])"
    by (rule example_ping)
  have ping_bad: "ping_if_no_telemetryID ?bad (example_client '''') []
      = (None, example_client ''a@b.io'', [example_ping_call])"
    by (rule example_ping)
  note all_ok = DeleteUsers_one_call_per_entity
    [OF ping_ok none, where entities = example_entities and ?c2.0 = "example_client ''a@b.io''"
       and ?log2.0 = "[example_ping_call, example_list_call]", THEN conjunct1]
  note user_ok = DeleteUsers_one_call_per_entity
    [OF ping_ok user, where u = "''al''", THEN conjunct2, THEN conjunct1]
  note all_bad = DeleteUsers_one_call_per_entity
    [OF ping_bad none, where entities = example_entities and ?c2.0 = "example_client ''a@b.io''"
       and ?log2.0 = "[example_ping_call, example_list_call]" and ?done = "[]"
       and x = "(''user'', ''al'')" and rest = "[(''agent'', ''bot'')]",
     THEN conjunct2, THEN conjunct2, THEN conjunct1]
  note user_bad = DeleteUsers_one_call_per_entity
    [OF ping_bad user, where u = "''al''", THEN conjunct2, THEN conjunct2, THEN conjunct2]
  have a: "DeleteUsers ?ok (example_client '''') [] []
     = (Inr \<lparr>Message = ''All users, agents, apps and runs deleted.''\<rparr>, example_client ''a@b.io'',
        [example_ping_call, example_list_call, example_delete_call ''user/al/'',
         example_delete_call ''agent/bot/'']) \<and>
     DELETE_calls_after 0
     [example_ping_call, example_list_call, example_delete_call ''user/al/'',
      example_delete_call ''agent/bot/''] = 2"
    using all_ok
    by (simp add: example_Users[of _ _ "[example_ping_call]", simplified] example_entities_of
          example_entity_call example_delete_ok DeleteUsersParams_zero_def)
       (simp add: example_entities_def)
  have b: "DeleteUsers ?ok (example_client '''') [] [example_params (Some ''al'') None]
     = (Inr \<lparr>Message = ''Entity deleted successfully.''\<rparr>, example_client ''a@b.io'',
        [example_ping_call, example_delete_call ''user/al/'']) \<and>
     DELETE_calls_after 0 [example_ping_call, example_delete_call ''user/al/''] = 1"
    using user_ok
    by (simp add: example_entity_call example_delete_ok)
       (simp add: example_params_def)
  have c: "\<exists>inner. DeleteUsers ?bad (example_client '''') [] []
      = (Inl (APIError (''Failed to delete user al: '' @ Error inner) 0 ''''),
         example_client ''a@b.io'',
         [example_ping_call, example_list_call, example_delete_call ''user/al/''])"
    using all_bad example_first_fails
    by (simp add: example_Users[of _ _ "[example_ping_call]", simplified] example_entities_of
          example_entity_call DeleteUsersParams_zero_def)
  have d: "\<exists>inner. DeleteUsers ?bad (example_client '''') [] [example_params (Some ''al'') None]
      = (Inl (APIError (''Failed to delete user al: '' @ Error inner) 0 ''''),
         example_client ''a@b.io'', [example_ping_call, example_delete_call ''user/al/''])"
    using user_bad example_first_fails
    by (simp add: example_entity_call) (simp add: example_params_def)
  from a b c d show ?thesis
    by blast
qed

theorem DeleteUsers_targets_by_priority_witness:
  "snd (DeleteUsers (example_env (example_server example_listing [] 200)) (example_client '''') []
          [example_params (Some ''al'') (Some ''bot'')])
     = (example_client ''a@b.io'', [example_ping_call, example_delete_call ''user/al/'']) \<and>
   DELETE_calls_after 0
     (snd (snd (DeleteUsers (example_env (example_server example_listing [] 200))
                  (example_client '''') [] [example_params (Some ''al'') (Some ''bot'')]))) = 1 \<and>
   snd (DeleteUsers (example_env (example_server example_listing [] 200)) (example_client '''') []
          [example_params None (Some ''bot'')])
     = (example_client ''a@b.io'', [example_ping_call, example_delete_call ''agent/bot/''])"
proof -
  let ?ok = "example_env (example_server example_listing [] 200)"
  have ping_ok: "ping_if_no_telemetryID ?ok (example_client '''') []
      = (None, example_client ''a@b.io'', [example_ping_call])"
    by (rule example_ping)
  have both: "(case [example_params (Some ''al'') (Some ''bot'')] of
                 [] \<Rightarrow> DeleteUsersParams_zero | p # ps \<Rightarrow> p)
      = example_params (Some ''al'') (Some ''bot'')"
    by simp
  have agent: "(case [example_params None (Some ''bot'')] of
                 [] \<Rightarrow> DeleteUsersParams_zero | p # ps \<Rightarrow> p)
      = example_params None (Some ''bot'')"
    by simp
  from DeleteUsers_targets_by_priority[OF ping_ok both, where u = "''al''", THEN conjunct1]
    DeleteUsers_targets_by_priority[OF ping_ok agent, where a = "''bot''", THEN conjunct2,
      THEN conjunct1]
  show ?thesis
    by (auto simp: example_entity_call example_params_def)
qed

section \<open>Errors of the transport, as the caller sees them\<close>

lemma marshals_all: "(\<And>p. json_Marshal e p = None) \<Longrightarrow> marshals e b"
  by (cases b) (simp_all add: marshals_def)

lemma ping_if_fetch_error:
  assumes "telemetryID c = ''''"
      and "\<And>m ep b. fst (fetchWithErrorHandling e c log m ep b) = Inl err"
  shows "fst (ping_if_no_telemetryID e c log) = Some (Errorf_w ''failed to ping server: '' err)"
  using assms(1) Ping_returns_fetch_error[of e c log err, OF assms(2)]
  by (simp add: ping_if_no_telemetryID_def)

lemma delete_each_error:
  assumes "fst (fetchWithErrorHandling e c log ''DELETE'' (entity_endpoint ro x) None) = Inl err"
  shows "fst (delete_each e c log ro (x # rest))
           = Some (APIError (''Failed to delete '' @ fst x @ '' '' @ snd x @ '': '' @ Error err) 0 '''')"
  using assms
  by (cases "fetchWithErrorHandling e c log ''DELETE'' (entity_endpoint ro x) None")
     (simp add: NewAPIError_def)

lemma DeleteUsers_user_error:
  assumes "telemetryID c \<noteq> ''''"
      and "(case params of [] \<Rightarrow> DeleteUsersParams_zero | p # ps \<Rightarrow> p) = dp"
      and "DeleteUsersParams.UserID dp = Some u"
      and "\<And>m ep b. fst (fetchWithErrorHandling e c log m ep b) = Inl err"
  shows "fst (DeleteUsers e c log params)
           = Inl (APIError (''Failed to delete user '' @ u @ '': '' @ Error err) 0 '''')"
proof -
  have "ping_if_no_telemetryID e c log = (None, c, log)"
    using assms(1) by (simp add: ping_if_no_telemetryID_def)
  from DeleteUsers_user[OF this assms(2,3)]
  have "DeleteUsers e c log params = delete_resolved e c log dp [(''user'', u)]" .
  moreover have "fst (delete_each e c log (set_org_project c MemoryOptions_zero) [(''user'', u)])
      = Some (APIError (''Failed to delete user '' @ u @ '': '' @ Error err) 0 '''')"
    using delete_each_error[OF assms(4), of "set_org_project c MemoryOptions_zero" "(''user'', u)" "[]"]
    by simp
  ultimately show ?thesis
    by (cases "delete_each e c log (set_org_project c MemoryOptions_zero) [(''user'', u)]")
       (simp add: delete_resolved_def Let_def)
qed

text \<open>
  Claim C5, as stated, fails for \<^verbatim>\<open>DeleteUsers\<close>: a 401 answer to the \<^verbatim>\<open>DELETE\<close> of an entity
  is reported as an API error with the status code 0 and an empty body.
\<close>

theorem DeleteUsers_status_counterexample:
  "DeleteUsers
     (example_env (example_server example_listing (URL (example_delete_call ''user/al/'')) 401))
     (example_client ''a@b.io'') [] [example_params (Some ''al'') None]
   = (Inl (APIError ''Failed to delete user al: API request failed (status 401): denied'' 0 ''''),
      example_client ''a@b.io'', [example_delete_call ''user/al/''])"
  apply (simp add: DeleteUsers_def example_no_ping)
  apply (simp add: example_params_def delete_resolved_def Let_def)
  apply (simp add: entity_endpoint_def Let_def Encode_no_params fetchWithErrorHandling_def
      NewAPIError_def Itoa_def FormatUint.simps digits_def example_defs del: prepareParams.simps)
  done

text \<open>
  Claim C5, amended.  When every request body can be marshalled and the response has a
  status code outside 200..299, \<^verbatim>\<open>fetchWithErrorHandling\<close> fails with an API error that has
  this status code and the raw body as message and as body.  \<^verbatim>\<open>Add\<close>, \<^verbatim>\<open>GetAll\<close> and
  \<^verbatim>\<open>Users\<close> return this error unchanged when the telemetry id of the client is known;
  when it is not, they ping first and return the error of the ping.  \<^verbatim>\<open>Ping\<close> returns the
  API error wrapped in an error with the prefix ``failed to ping server: '', and
  \<^verbatim>\<open>DeleteUsers\<close> reports it, for the call of an entity, as a new API error with the status
  code 0 and an empty body, whose message holds the text of the original error.
\<close>

theorem non_2xx_is_an_APIError:
  assumes "\<And>p. json_Marshal e p = None"
      and "\<And>req. roundTrip e log req = Response sc rb"
      and "sc < 200 \<or> 300 \<le> sc"
  shows "fst (fetchWithErrorHandling e c log m ep b) = Inl (APIError rb sc rb) \<and>
         (telemetryID c \<noteq> '''' \<longrightarrow>
            fst (Add e c log messages options) = Inl (APIError rb sc rb) \<and>
            fst (GetAll e c log soptions) = Inl (APIError rb sc rb) \<and>
            fst (Users e c log) = Inl (APIError rb sc rb)) \<and>
         (telemetryID c = '''' \<longrightarrow>
            fst (Add e c log messages options)
              = Inl (Errorf_w ''failed to ping server: '' (APIError rb sc rb)) \<and>
            fst (GetAll e c log soptions)
              = Inl (Errorf_w ''failed to ping server: '' (APIError rb sc rb)) \<and>
            fst (Users e c log)
              = Inl (Errorf_w ''failed to ping server: '' (APIError rb sc rb))) \<and>
         fst (Ping e c log) = Some (Errorf_w ''failed to ping server: '' (APIError rb sc rb)) \<and>
         (telemetryID c \<noteq> '''' \<and>
          (case params of [] \<Rightarrow> DeleteUsersParams_zero | p # ps \<Rightarrow> p) = dp \<and>
          DeleteUsersParams.UserID dp = Some u \<longrightarrow>
            fst (DeleteUsers e c log params)
              = Inl (APIError (''Failed to delete user '' @ u @ '': '' @ Error (APIError rb sc rb))
                       0 ''''))"
proof -
  have f: "\<And>m ep b. fst (fetchWithErrorHandling e c log m ep b) = Inl (APIError rb sc rb)"
    using assms(2,3) marshals_all[of e, OF assms(1)] by (intro fetch_status) auto
  have p: "telemetryID c = '''' \<Longrightarrow>
      fst (ping_if_no_telemetryID e c log)
        = Some (Errorf_w ''failed to ping server: '' (APIError rb sc rb))"
    by (rule ping_if_fetch_error[OF _ f])
  have a: "telemetryID c = '''' \<Longrightarrow> fst (Add e c log messages options)
              = Inl (Errorf_w ''failed to ping server: '' (APIError rb sc rb))"
    using p by (auto simp: Add_def Let_def split: prod.splits option.splits)
  have g: "telemetryID c = '''' \<Longrightarrow> fst (GetAll e c log soptions)
              = Inl (Errorf_w ''failed to ping server: '' (APIError rb sc rb))"
    using p by (auto simp: GetAll_def Let_def split: prod.splits option.splits)
  have u: "telemetryID c = '''' \<Longrightarrow> fst (Users e c log)
              = Inl (Errorf_w ''failed to ping server: '' (APIError rb sc rb))"
    using p by (auto simp: Users_def Let_def split: prod.splits option.splits)
  show ?thesis
    using f a g u Add_returns_fetch_error[OF _ f] GetAll_returns_fetch_error[OF _ f]
      Users_returns_fetch_error[OF _ f] Ping_returns_fetch_error[OF f]
      DeleteUsers_user_error[OF _ _ _ f]
    by blast
qed

theorem non_2xx_is_an_APIError_witness:
  "fst (fetchWithErrorHandling (example_env (\<lambda>log req. Response 403 ''denied''))
          (example_client ''a@b.io'') [] ''GET'' ''/v1/memories/m1/'' None)
     = Inl (APIError ''denied'' 403 ''denied'') \<and>
   fst (Add (example_env (\<lambda>log req. Response 403 ''denied'')) (example_client ''a@b.io'') [] [] [])
     = Inl (APIError ''denied'' 403 ''denied'') \<and>
   fst (GetAll (example_env (\<lambda>log req. Response 403 ''denied'')) (example_client ''a@b.io'') [] [])
     = Inl (APIError ''denied'' 403 ''denied'') \<and>
   fst (Users (example_env (\<lambda>log req. Response 403 ''denied'')) (example_client ''a@b.io'') [])
     = Inl (APIError ''denied'' 403 ''denied'') \<and>
   fst (Ping (example_env (\<lambda>log req. Response 403 ''denied'')) (example_client ''a@b.io'') [])
     = Some (Errorf_w ''failed to ping server: '' (APIError ''denied'' 403 ''denied'')) \<and>
   fst (DeleteUsers (example_env (\<lambda>log req. Response 403 ''denied'')) (example_client ''a@b.io'') []
          [example_params (Some ''al'') None])
     = Inl (APIError (''Failed to delete user al: '' @ Error (APIError ''denied'' 403 ''denied''))
              0 '''') \<and>
   fst (Add (example_env (\<lambda>log req. Response 403 ''denied'')) (example_client '''') [] [] [])
     = Inl (Errorf_w ''failed to ping server: '' (APIError ''denied'' 403 ''denied''))"
  using non_2xx_is_an_APIError
    [of "example_env (\<lambda>log req. Response 403 ''denied'')" "[]" 403 "''denied''"
        "example_client ''a@b.io''" "''GET''" "''/v1/memories/m1/''" None "[]" "[]" "[]"
        "[example_params (Some ''al'') None]" "example_params (Some ''al'') None" "''al''"]
    non_2xx_is_an_APIError
    [of "example_env (\<lambda>log req. Response 403 ''denied'')" "[]" 403 "''denied''"
        "example_client ''''" "''GET''" "''/v1/memories/m1/''" None "[]" "[]" "[]"]
  by (simp add: example_env_def) (simp add: example_client_def example_params_def)




end
